theory Spec2Isabelle
  imports Complex_Main
begin

section \<open>The mRKS inversion of \<^verbatim>\<open>src/n2v/methods/rmks.py\<close>\<close>

text \<open>
  The class \<^verbatim>\<open>MRKS\<close> is embedded as functions over an explicit solver record.
  Python exceptions are values of type \<open>error\<close>; a method that can raise returns
  \<open>error + 'a\<close>, and a method that also mutates \<^verbatim>\<open>self\<close> returns the result
  together with the solver it leaves behind.

  Numbers: numpy's float64 values are the reals. Rounding and overflow are not part of
  the model, and a quotient whose divisor the source leaves unguarded (the local density
  in the quadratures) is the quotient of reals, so statements about such values are meant
  for grids on which that density does not vanish. The one infinity the source writes
  itself, \<^verbatim>\<open>np.inf\<close> in the distance guard, is a constructor of its own, and the
  error quotients of the loop, whose divisor is a plain count, carry numpy's
  non-finite outcome explicitly.
\<close>

subsection \<open>Errors\<close>

datatype error =
    ValueError string
  | IndexError
  | AssertionError
  | UnboundLocalError
  | MemoryException

fun bindE :: "error + 'a \<Rightarrow> ('a \<Rightarrow> error + 'b) \<Rightarrow> error + 'b" where
  "bindE (Inl e) f = Inl e"
| "bindE (Inr a) f = f a"

subsection \<open>numpy arrays of one and two dimensions\<close>

type_synonym vec = "real list"
type_synonym mat = "real list list"

fun traverse :: "('a \<Rightarrow> error + 'b) \<Rightarrow> 'a list \<Rightarrow> error + 'b list" where
  "traverse f [] = Inr []"
| "traverse f (a # as) = bindE (f a) (\<lambda>b. bindE (traverse f as) (\<lambda>bs. Inr (b # bs)))"

text \<open>
  Elementwise arithmetic with numpy's broadcasting along one axis: equal extents are
  combined entry by entry, an extent of one is stretched, anything else raises
  \<^verbatim>\<open>ValueError\<close>.
\<close>

definition broadcast :: "('a \<Rightarrow> 'b \<Rightarrow> error + 'c) \<Rightarrow> 'a list \<Rightarrow> 'b list \<Rightarrow> error + 'c list" where
  "broadcast f as bs =
     (if length as = length bs then traverse (\<lambda>(a, b). f a b) (zip as bs)
      else if length bs = 1 then traverse (\<lambda>a. f a (hd bs)) as
      else if length as = 1 then traverse (\<lambda>b. f (hd as) b) bs
      else Inl (ValueError ''operands could not be broadcast together''))"

definition ew :: "(real \<Rightarrow> real \<Rightarrow> real) \<Rightarrow> vec \<Rightarrow> vec \<Rightarrow> error + vec" where
  "ew f = broadcast (\<lambda>a b. Inr (f a b))"

definition ew2 :: "(real \<Rightarrow> real \<Rightarrow> real) \<Rightarrow> mat \<Rightarrow> mat \<Rightarrow> error + mat" where
  "ew2 f = broadcast (ew f)"

text \<open>
  \<^verbatim>\<open>a[lo:lo+n] = v\<close> and \<^verbatim>\<open>a[lo:lo+n] += v\<close>: the slice is clipped to the array,
  and \<open>v\<close> must have the extent of the clipped slice or extent one.
\<close>

definition slice_set :: "vec \<Rightarrow> nat \<Rightarrow> nat \<Rightarrow> vec \<Rightarrow> error + vec" where
  "slice_set a lo n v =
     (let lo' = min lo (length a); hi' = min (lo + n) (length a); k = hi' - lo' in
      if length v = k then Inr (take lo' a @ v @ drop hi' a)
      else if length v = 1 then Inr (take lo' a @ replicate k (hd v) @ drop hi' a)
      else Inl (ValueError ''operands could not be broadcast together''))"

definition slice_add :: "vec \<Rightarrow> nat \<Rightarrow> nat \<Rightarrow> vec \<Rightarrow> error + vec" where
  "slice_add a lo n v =
     (let lo' = min lo (length a); hi' = min (lo + n) (length a); k = hi' - lo' in
      if length v = k then Inr (take lo' a @ map2 (+) (take k (drop lo' a)) v @ drop hi' a)
      else if length v = 1
        then Inr (take lo' a @ map (\<lambda>x. x + hd v) (take k (drop lo' a)) @ drop hi' a)
      else Inl (ValueError ''operands could not be broadcast together''))"

text \<open>\<^verbatim>\<open>np.max\<close> raises on an array without entries.\<close>

definition np_max :: "vec \<Rightarrow> error + real" where
  "np_max v = (case v of [] \<Rightarrow> Inl (ValueError ''zero-size array to reduction operation maximum'') | a # as \<Rightarrow> Inr (fold max as a))"

text \<open>\<^verbatim>\<open>np.linalg.norm\<close>: the 2-norm of a vector, the Frobenius norm of a matrix.\<close>

definition norm_vec :: "vec \<Rightarrow> real" where
  "norm_vec v = sqrt (sum_list (map (\<lambda>a. a * a) v))"

definition norm_mat :: "mat \<Rightarrow> real" where
  "norm_mat A = sqrt (sum_list (map (\<lambda>a. a * a) (concat A)))"

text \<open>
  \<^verbatim>\<open>np.isclose(a, b, atol=atol)\<close> with the default \<^verbatim>\<open>rtol = 1e-5\<close>, on finite
  arguments.
\<close>

definition isclose :: "real \<Rightarrow> real \<Rightarrow> real \<Rightarrow> bool" where
  "isclose a b atol = (\<bar>a - b\<bar> \<le> atol + (1 / 10 ^ 5) * \<bar>b\<bar>)"

subsection \<open>Grid blocks\<close>

text \<open>
  A block of the engine's quadrature grid. Its arrays \<^verbatim>\<open>x()\<close>, \<^verbatim>\<open>y()\<close>,
  \<^verbatim>\<open>z()\<close> and \<^verbatim>\<open>w()\<close> have one entry per point, so the block is kept as the
  list of its points; \<^verbatim>\<open>npoints()\<close> is their number.
\<close>

record point =
  px :: real
  py :: real
  pz :: real
  pw :: real

record block =
  pts :: "point list"
  functions_local_to_global :: "nat list"

definition npoints :: "block \<Rightarrow> nat" where
  "npoints b = length (pts b)"

subsection \<open>The external engine and the solver\<close>

text \<open>
  What the solver asks of psi4, of \<^verbatim>\<open>opt_einsum\<close> and of the methods it inherits.
  The tensor contractions over basis values are capabilities of the engine: each takes
  the basis evaluator in use, the matrices it contracts, a block, and the index of a point
  of that block. \<open>'pf\<close> is the type of basis evaluators, \<open>'op\<close> the type of
  one-electron operators.

  \<^item> \<open>rho\<close>: \<^verbatim>\<open>contract('pm,mn,pn->p', phi, D[lpos, lpos], phi)\<close>;
  \<^item> \<open>ebar_num\<close>: \<^verbatim>\<open>contract("pm,mi,ni,i,pn->p", phi, lC, lC, eig, phi)\<close>;
  \<^item> \<open>pauli_sum\<close>, \<open>mpauli_sum\<close>: the occupation-weighted sums over orbital pairs
    of the two kinetic densities;
  \<^item> \<open>pair_CI\<close>, \<open>pair_RHF\<close>: the two-point contractions of the hole quadrature;
  \<^item> \<open>wfn_D2\<close>: the density matrix \<^verbatim>\<open>D2\<close> the hole quadrature builds from the
    wavefunction.
\<close>

record ('pf, 'op) engine =
  internal_pf :: 'pf
  build_grid :: "block list"
  rho :: "'pf \<Rightarrow> mat \<Rightarrow> block \<Rightarrow> nat \<Rightarrow> real"
  ebar_num :: "'pf \<Rightarrow> mat \<Rightarrow> vec \<Rightarrow> block \<Rightarrow> nat \<Rightarrow> real"
  pauli_sum :: "'pf \<Rightarrow> mat \<Rightarrow> vec \<Rightarrow> block \<Rightarrow> nat \<Rightarrow> real"
  mpauli_sum :: "'pf \<Rightarrow> mat \<Rightarrow> vec \<Rightarrow> block \<Rightarrow> nat \<Rightarrow> real"
  wfn_D2 :: mat
  pair_CI :: "'pf \<Rightarrow> block \<Rightarrow> block \<Rightarrow> nat \<Rightarrow> nat \<Rightarrow> real"
  pair_RHF :: "'pf \<Rightarrow> block \<Rightarrow> block \<Rightarrow> nat \<Rightarrow> nat \<Rightarrow> real"
  gfm_orbitals :: "mat \<times> vec"
  natural_orbitals :: "mat \<times> vec"
  epsilon_a_occ :: vec
  energy :: "string \<Rightarrow> mat \<times> mat \<times> vec"
  dft_grid_to_fock :: "vec \<Rightarrow> block list \<Rightarrow> 'op"
  op_add :: "'op \<Rightarrow> 'op \<Rightarrow> 'op"
  diagonalize :: "'op \<Rightarrow> nat \<Rightarrow> mat \<times> mat \<times> mat \<times> vec"
  grid_to_blocks :: "mat \<Rightarrow> block list \<times> nat \<times> 'pf"

text \<open>
  The requests the solver sends to the engine are recorded in the order they are made,
  so that theorems can count them. The two \<open>Stops\<close> entries stand for the messages
  the loop prints when it breaks.
\<close>

datatype request =
    BuildGrid
  | Energy string
  | GridToFock vec
  | Diagonalize
  | VxcStops
  | KSDFTStops
  | GridToBlocks

record 'op solver =
  wfn_name :: string
  ref :: int
  guide_potential_components :: "string list"
  basis_str :: string
  nbf :: nat
  nalpha :: nat
  nt0 :: mat
  ct0 :: mat
  op_T :: 'op
  op_V :: 'op
  op_va :: 'op
  Ca :: mat
  Coca :: mat
  Da :: mat
  eigvecs_a :: vec
  Cb :: mat
  Db :: mat
  eigvecs_b :: vec
  Vpot :: "block list"
  npoints_DFT :: nat
  vxc_hole_WF :: "vec option"
  shift :: real
  requests :: "request list"

type_synonym 'pf grid = "block list \<times> nat \<times> 'pf"

text \<open>
  Every quadrature starts the same way: without \<^verbatim>\<open>grid_info\<close> it works on the
  solver's own grid, its own point count and its own basis evaluator.
\<close>

definition grid_of :: "('pf, 'op) engine \<Rightarrow> 'op solver \<Rightarrow> 'pf grid option \<Rightarrow> 'pf grid" where
  "grid_of E s grid_info =
     (case grid_info of
        None \<Rightarrow> (Vpot s, npoints_DFT s, internal_pf E)
      | Some g \<Rightarrow> g)"

subsection \<open>The single-loop quadratures\<close>

text \<open>
  The loop over the outer blocks with its running offset \<^verbatim>\<open>iw\<close>, and the
  assertion after it.
\<close>

fun fill_blocks :: "(block \<Rightarrow> vec) \<Rightarrow> block list \<Rightarrow> vec \<Rightarrow> nat \<Rightarrow> error + vec \<times> nat" where
  "fill_blocks f [] out iw = Inr (out, iw)"
| "fill_blocks f (l_grid # rest) out iw =
     bindE (slice_set out iw (npoints l_grid) (f l_grid))
       (\<lambda>out'. fill_blocks f rest out' (iw + npoints l_grid))"

definition fully_integrated :: "vec \<times> nat \<Rightarrow> error + vec" where
  "fully_integrated r =
     (case r of (out, iw) \<Rightarrow> if iw = length out then Inr out else Inl AssertionError)"

definition ebar_block ::
  "('pf, 'op) engine \<Rightarrow> 'pf \<Rightarrow> mat \<Rightarrow> mat \<Rightarrow> vec \<Rightarrow> block \<Rightarrow> vec" where
  "ebar_block E pf D C eig l_grid =
     map (\<lambda>p. ebar_num E pf C eig l_grid p / rho E pf D l_grid p) [0..<npoints l_grid]"

definition average_local_orbital_energy ::
  "('pf, 'op) engine \<Rightarrow> 'op solver \<Rightarrow> mat \<Rightarrow> mat \<Rightarrow> vec \<Rightarrow> 'pf grid option \<Rightarrow> error + vec" where
  "average_local_orbital_energy E s D C eig grid_info =
     (case grid_of E s grid_info of
        (blocks, n, pf) \<Rightarrow>
          bindE (fill_blocks (ebar_block E pf D C eig) blocks (replicate n 0) 0)
            fully_integrated)"

text \<open>\<^verbatim>\<open>occ = np.ones(C.shape[1])\<close> when no occupations are passed.\<close>

definition occ_or_ones :: "mat \<Rightarrow> vec option \<Rightarrow> vec" where
  "occ_or_ones C occ =
     (case occ of
        Some v \<Rightarrow> v
      | None \<Rightarrow> replicate (case C of [] \<Rightarrow> 0 | row # _ \<Rightarrow> length row) 1)"

definition pauli_block ::
  "('pf, 'op) engine \<Rightarrow> 'pf \<Rightarrow> mat \<Rightarrow> mat \<Rightarrow> vec \<Rightarrow> block \<Rightarrow> vec" where
  "pauli_block E pf D C occ l_grid =
     map (\<lambda>p. pauli_sum E pf C occ l_grid p * (1 / 2) / (rho E pf D l_grid p) ^ 2 * (1 / 2))
       [0..<npoints l_grid]"

definition pauli_kinetic_energy_density ::
  "('pf, 'op) engine \<Rightarrow> 'op solver \<Rightarrow> mat \<Rightarrow> mat \<Rightarrow> vec option \<Rightarrow> 'pf grid option
     \<Rightarrow> error + vec" where
  "pauli_kinetic_energy_density E s D C occ grid_info =
     (case grid_of E s grid_info of
        (blocks, n, pf) \<Rightarrow>
          bindE (fill_blocks (pauli_block E pf D C (occ_or_ones C occ)) blocks (replicate n 0) 0)
            fully_integrated)"

definition modified_pauli_block ::
  "('pf, 'op) engine \<Rightarrow> 'pf \<Rightarrow> mat \<Rightarrow> mat \<Rightarrow> vec \<Rightarrow> block \<Rightarrow> vec" where
  "modified_pauli_block E pf D C occ l_grid =
     map (\<lambda>p. - mpauli_sum E pf C occ l_grid p / (rho E pf D l_grid p) ^ 2)
       [0..<npoints l_grid]"

definition modified_pauli_kinetic_energy_density ::
  "('pf, 'op) engine \<Rightarrow> 'op solver \<Rightarrow> mat \<Rightarrow> mat \<Rightarrow> vec option \<Rightarrow> 'pf grid option
     \<Rightarrow> error + vec" where
  "modified_pauli_kinetic_energy_density E s D C occ grid_info =
     (case grid_of E s grid_info of
        (blocks, n, pf) \<Rightarrow>
          bindE (fill_blocks (modified_pauli_block E pf D C (occ_or_ones C occ)) blocks
                   (replicate n 0) 0)
            fully_integrated)"

subsection \<open>The hole quadrature\<close>

text \<open>
  The squared distances of one outer block against one inner block, and the guard of
  lines 152 to 154: when any entry is close to zero, the entries close to zero become
  \<^verbatim>\<open>np.inf\<close>.
\<close>

datatype dist2 = Finite real | Infinity

definition R2 :: "point \<Rightarrow> point \<Rightarrow> real" where
  "R2 a b = (px a - px b) ^ 2 + (py a - py b) ^ 2 + (pz a - pz b) ^ 2"

definition R2_matrix :: "block \<Rightarrow> block \<Rightarrow> mat" where
  "R2_matrix l_grid r_grid = map (\<lambda>a. map (R2 a) (pts r_grid)) (pts l_grid)"

definition guard :: "real \<Rightarrow> mat \<Rightarrow> dist2 list list" where
  "guard atol M =
     (if list_ex (list_ex (\<lambda>d. isclose d 0 atol)) M
      then map (map (\<lambda>d. if isclose d 0 atol then Infinity else Finite d)) M
      else map (map Finite) M)"

text \<open>
  \<^verbatim>\<open>Rinv = 1 / np.sqrt(R2)\<close>. The reciprocal of the infinite entry is the number
  zero. A finite entry that is zero can only be left by a negative \<^verbatim>\<open>atol\<close>; numpy
  returns \<^verbatim>\<open>inf\<close> there, which is outside the reals, so what is proved about the
  reciprocal of a finite entry is proved for positive entries.
\<close>

definition Rinv :: "dist2 \<Rightarrow> real" where
  "Rinv d = (case d of Infinity \<Rightarrow> 0 | Finite r \<Rightarrow> 1 / sqrt r)"

text \<open>
  \<^verbatim>\<open>n_xc\<close> for one pair of blocks. Only the two supported wavefunction kinds bind
  the name; with any other kind its first use at line 158 raises.
\<close>

definition n_xc ::
  "('pf, 'op) engine \<Rightarrow> 'op solver \<Rightarrow> 'pf \<Rightarrow> block \<Rightarrow> block \<Rightarrow> error + mat" where
  "n_xc E s pf l_grid r_grid =
     (if wfn_name s = ''CIWavefunction'' then
        Inr (map (\<lambda>p. map (\<lambda>q. pair_CI E pf l_grid r_grid p q * (1 / rho E pf (wfn_D2 E) l_grid p)
                               - rho E pf (wfn_D2 E) r_grid q)
                        [0..<npoints r_grid])
               [0..<npoints l_grid])
      else if wfn_name s = ''RHF'' then
        Inr (map (\<lambda>p. map (\<lambda>q. - 2 * pair_RHF E pf l_grid r_grid p q
                                 * (1 / rho E pf (wfn_D2 E) l_grid p))
                        [0..<npoints r_grid])
               [0..<npoints l_grid])
      else Inl UnboundLocalError)"

text \<open>
  The array \<^verbatim>\<open>n_xc * Rinv * r_w\<close>, one entry per pair of an outer and an inner
  point, and \<^verbatim>\<open>np.sum(..., axis=1)\<close> over the inner points.
\<close>

definition products :: "mat \<Rightarrow> mat \<Rightarrow> vec \<Rightarrow> mat" where
  "products N K r_w = map2 (\<lambda>n_row k_row. map2 (*) (map2 (*) n_row k_row) r_w) N K"

definition weighted_row_sums :: "mat \<Rightarrow> mat \<Rightarrow> vec \<Rightarrow> vec" where
  "weighted_row_sums N K r_w = map sum_list (products N K r_w)"

definition block_pair ::
  "('pf, 'op) engine \<Rightarrow> 'op solver \<Rightarrow> 'pf \<Rightarrow> real \<Rightarrow> block \<Rightarrow> block \<Rightarrow> error + vec" where
  "block_pair E s pf atol l_grid r_grid =
     bindE (n_xc E s pf l_grid r_grid)
       (\<lambda>N. Inr (weighted_row_sums N
                    (map (map Rinv) (guard atol (R2_matrix l_grid r_grid)))
                    (map pw (pts r_grid))))"

text \<open>The inner loop, over the blocks of \<^verbatim>\<open>self.Vpot\<close>, adding into \<^verbatim>\<open>dvp_l\<close>.\<close>

fun inner_blocks :: "(block \<Rightarrow> error + vec) \<Rightarrow> block list \<Rightarrow> vec \<Rightarrow> error + vec" where
  "inner_blocks c [] dvp_l = Inr dvp_l"
| "inner_blocks c (r_grid # rest) dvp_l =
     bindE (c r_grid) (\<lambda>d. inner_blocks c rest (map2 (+) dvp_l d))"

definition dvp ::
  "('pf, 'op) engine \<Rightarrow> 'op solver \<Rightarrow> 'pf \<Rightarrow> real \<Rightarrow> block \<Rightarrow> error + vec" where
  "dvp E s pf atol l_grid =
     inner_blocks (block_pair E s pf atol l_grid) (Vpot s) (replicate (npoints l_grid) 0)"

text \<open>The outer loop, with its running offset \<^verbatim>\<open>w1_old\<close>.\<close>

fun accum_blocks ::
  "(block \<Rightarrow> error + vec) \<Rightarrow> block list \<Rightarrow> vec \<Rightarrow> nat \<Rightarrow> error + vec \<times> nat" where
  "accum_blocks f [] out w1_old = Inr (out, w1_old)"
| "accum_blocks f (l_grid # rest) out w1_old =
     bindE (f l_grid)
       (\<lambda>dvp_l. bindE (slice_add out w1_old (npoints l_grid) dvp_l)
          (\<lambda>out'. accum_blocks f rest out' (w1_old + npoints l_grid)))"

text \<open>
  The cached result is returned only when no alternate grid is given, and only a run on
  the solver's own grid stores its result.
\<close>

definition vxc_hole_quadrature ::
  "('pf, 'op) engine \<Rightarrow> 'op solver \<Rightarrow> 'pf grid option \<Rightarrow> real \<Rightarrow> (error + vec) \<times> 'op solver" where
  "vxc_hole_quadrature E s grid_info atol =
     (if vxc_hole_WF s \<noteq> None \<and> grid_info = None then (Inr (the (vxc_hole_WF s)), s)
      else
        (case grid_of E s grid_info of
           (blocks, n, pf) \<Rightarrow>
             (case bindE (accum_blocks (dvp E s pf atol) blocks (replicate n 0) 0)
                     fully_integrated of
                Inl e \<Rightarrow> (Inl e, s)
              | Inr vxchole \<Rightarrow>
                  (if grid_info = None then (Inr vxchole, s\<lparr>vxc_hole_WF := Some vxchole\<rparr>)
                   else (Inr vxchole, s)))))"

subsection \<open>Re-diagonalisation\<close>

definition diagonalize_with_potential_mRKS ::
  "('pf, 'op) engine \<Rightarrow> 'op option \<Rightarrow> 'op solver \<Rightarrow> (error + unit) \<times> 'op solver" where
  "diagonalize_with_potential_mRKS E v s =
     (let fock_a = (case v of
                      None \<Rightarrow> op_add E (op_add E (op_V s) (op_T s)) (op_va s)
                    | Some v' \<Rightarrow> op_add E (op_add E (op_add E (op_V s) (op_T s)) (op_va s)) v')
      in case diagonalize E fock_a (nalpha s) of
           (ca, coca, da, eig) \<Rightarrow>
             (let s' = s\<lparr>Ca := ca, Coca := coca, Da := da, eigvecs_a := eig,
                         requests := requests s @ [Diagonalize]\<rparr>
              in if ref s' = 1
                 then (Inr (), s'\<lparr>Cb := ca, Db := da, eigvecs_b := eig\<rparr>)
                 else (Inl (ValueError ''Currently only spin-restricted in implemented.''), s')))"

subsection \<open>One iteration of the loop\<close>

text \<open>
  \<^verbatim>\<open>vxc_old\<close>, \<^verbatim>\<open>Da_old\<close> and \<^verbatim>\<open>eig_old\<close> start as the Python float
  \<^verbatim>\<open>0.0\<close> and become copies of arrays at the end of an iteration.
\<close>

datatype 'a prev = Scalar real | Copy 'a

definition sub_old :: "vec \<Rightarrow> vec prev \<Rightarrow> error + vec" where
  "sub_old v old =
     (case old of Scalar c \<Rightarrow> Inr (map (\<lambda>a. a - c) v) | Copy u \<Rightarrow> ew (-) v u)"

definition sub_old2 :: "mat \<Rightarrow> mat prev \<Rightarrow> error + mat" where
  "sub_old2 A old =
     (case old of Scalar c \<Rightarrow> Inr (map (map (\<lambda>a. a - c)) A) | Copy B \<Rightarrow> ew2 (-) A B)"

text \<open>\<^verbatim>\<open>vxc * (1 - frac_old) + vxc_old * frac_old\<close>\<close>

definition mix :: "vec \<Rightarrow> vec prev \<Rightarrow> real \<Rightarrow> error + vec" where
  "mix new old frac_old =
     (case old of
        Scalar c \<Rightarrow> Inr (map (\<lambda>a. a * (1 - frac_old) + c * frac_old) new)
      | Copy u \<Rightarrow> ew (+) (map (\<lambda>a. a * (1 - frac_old)) new) (map (\<lambda>b. b * frac_old) u))"

text \<open>
  A norm divided by a count. numpy divides a float64 by the integer zero without
  raising: the quotient is \<^verbatim>\<open>inf\<close> or \<^verbatim>\<open>nan\<close>, and neither is below any
  tolerance.
\<close>

datatype fl = Fin real | NonFinite

definition np_div :: "real \<Rightarrow> nat \<Rightarrow> fl" where
  "np_div a d = (if d = 0 then NonFinite else Fin (a / real d))"

fun fl_less :: "fl \<Rightarrow> real \<Rightarrow> bool" where
  "fl_less (Fin a) t = (a < t)"
| "fl_less NonFinite t = False"

text \<open>
  \<^verbatim>\<open>vxchole + ebarKS - ebarWF + taup_rho_WF - taup_rho_KS + potential_shift\<close>,
  evaluated from the left.
\<close>

definition assemble :: "vec \<Rightarrow> vec \<Rightarrow> vec \<Rightarrow> vec \<Rightarrow> vec \<Rightarrow> real \<Rightarrow> error + vec" where
  "assemble vxchole ebarKS ebarWF taup_rho_WF taup_rho_KS potential_shift =
     bindE (ew (+) vxchole ebarKS) (\<lambda>a.
     bindE (ew (-) a ebarWF) (\<lambda>b.
     bindE (ew (+) b taup_rho_WF) (\<lambda>c.
     bindE (ew (-) c taup_rho_KS) (\<lambda>d.
     Inr (map (\<lambda>x. x + potential_shift) d)))))"

text \<open>
  The shift of the loop, line 499, from the maximum \<^verbatim>\<open>emax\<close> taken before the
  loop, and the shift of the output path, line 555.
\<close>

definition potential_shift_loop :: "real \<Rightarrow> vec \<Rightarrow> error + real" where
  "potential_shift_loop emax ebarKS = bindE (np_max ebarKS) (\<lambda>m. Inr (emax - m))"

definition potential_shift_output :: "vec \<Rightarrow> vec \<Rightarrow> error + real" where
  "potential_shift_output ebarWF ebarKS =
     bindE (np_max ebarWF) (\<lambda>a. bindE (np_max ebarKS) (\<lambda>b. Inr (a - b)))"

text \<open>The quantities fixed before the loop, on the solver's own grid.\<close>

record reference =
  r_vxchole :: vec
  r_ebarWF :: vec
  r_taup_rho_WF :: vec
  r_emax :: real

text \<open>
  The local names of the method that the loop binds. \<^verbatim>\<open>vxc\<close>, \<^verbatim>\<open>ebarKS\<close> and
  \<^verbatim>\<open>taup_rho_KS\<close> are unbound until the first iteration.
\<close>

record loop_vars =
  l_vxc :: "vec option"
  l_ebarKS :: "vec option"
  l_taup_rho_KS :: "vec option"
  l_vxc_old :: "vec prev"
  l_Da_old :: "mat prev"
  l_eig_old :: "vec prev"

datatype 'a flow = Break 'a | Continue 'a

text \<open>Lines 495 to 502: the loop's shift and candidate potential.\<close>

definition candidate ::
  "('pf, 'op) engine \<Rightarrow> reference \<Rightarrow> 'op solver \<Rightarrow> (error + vec \<times> vec \<times> vec) \<times> 'op solver" where
  "candidate E R s =
     (case average_local_orbital_energy E s (Da s) (Coca s) (take (nalpha s) (eigvecs_a s)) None of
        Inl e \<Rightarrow> (Inl e, s)
      | Inr ebarKS \<Rightarrow>
     (case pauli_kinetic_energy_density E s (Da s) (Coca s) None None of
        Inl e \<Rightarrow> (Inl e, s)
      | Inr taup_rho_KS \<Rightarrow>
     (case potential_shift_loop (r_emax R) ebarKS of
        Inl e \<Rightarrow> (Inl e, s)
      | Inr potential_shift \<Rightarrow>
     (let s' = s\<lparr>shift := potential_shift\<rparr>
      in case assemble (r_vxchole R) ebarKS (r_ebarWF R) (r_taup_rho_WF R) taup_rho_KS
                potential_shift of
           Inl e \<Rightarrow> (Inl e, s')
         | Inr vxc \<Rightarrow> (Inr (vxc, ebarKS, taup_rho_KS), s')))))"

text \<open>Lines 506, 510 and 511: the three error measures.\<close>

definition verror :: "'op solver \<Rightarrow> vec \<Rightarrow> vec prev \<Rightarrow> error + fl" where
  "verror s vxc vxc_old =
     bindE (sub_old vxc vxc_old) (\<lambda>d. Inr (np_div (norm_vec d) (nbf s ^ 2)))"

definition Derror :: "'op solver \<Rightarrow> mat prev \<Rightarrow> error + fl" where
  "Derror s Da_old =
     bindE (sub_old2 (Da s) Da_old) (\<lambda>d. Inr (np_div (norm_mat d) (nbf s ^ 2)))"

definition eerror :: "'op solver \<Rightarrow> vec prev \<Rightarrow> error + fl" where
  "eerror s eig_old =
     bindE (sub_old (take (nalpha s) (eigvecs_a s)) eig_old)
       (\<lambda>d. Inr (np_div (norm_vec d) (nalpha s)))"

text \<open>Lines 518 and 519: no mixing in the first iteration.\<close>

definition linear_mixture :: "int \<Rightarrow> vec \<Rightarrow> vec prev \<Rightarrow> real \<Rightarrow> error + vec" where
  "linear_mixture mRKS_step vxc vxc_old frac_old =
     (if mRKS_step \<noteq> 1 then mix vxc vxc_old frac_old else Inr vxc)"

text \<open>Lines 517 to 528: mixing, saving the old data, and the re-diagonalisation.\<close>

definition update ::
  "('pf, 'op) engine \<Rightarrow> real \<Rightarrow> int \<Rightarrow> loop_vars \<Rightarrow> vec \<Rightarrow> 'op solver
     \<Rightarrow> (error + loop_vars flow) \<times> 'op solver" where
  "update E frac_old mRKS_step lv vxc s =
     (case linear_mixture mRKS_step vxc (l_vxc_old lv) frac_old of
        Inl e \<Rightarrow> (Inl e, s)
      | Inr vxc' \<Rightarrow>
     (let lv' = lv\<lparr>l_vxc := Some vxc',
                    l_vxc_old := Copy vxc',
                    l_Da_old := Copy (Da s),
                    l_eig_old := Copy (take (nalpha s) (eigvecs_a s))\<rparr>;
          vxc_Fock = dft_grid_to_fock E vxc' (Vpot s);
          s' = s\<lparr>requests := requests s @ [GridToFock vxc']\<rparr>
      in case diagonalize_with_potential_mRKS E (Some vxc_Fock) s' of
           (Inl e, s'') \<Rightarrow> (Inl e, s'')
         | (Inr _, s'') \<Rightarrow> (Inr (Continue lv'), s'')))"

text \<open>The body of the loop, lines 494 to 531.\<close>

definition iteration ::
  "('pf, 'op) engine \<Rightarrow> reference \<Rightarrow> real \<Rightarrow> real \<Rightarrow> real \<Rightarrow> real \<Rightarrow> int \<Rightarrow> loop_vars
     \<Rightarrow> 'op solver \<Rightarrow> (error + loop_vars flow) \<times> 'op solver" where
  "iteration E R v_tol D_tol eig_tol frac_old mRKS_step lv s =
     (case candidate E R s of
        (Inl e, s') \<Rightarrow> (Inl e, s')
      | (Inr (vxc, ebarKS, taup_rho_KS), s') \<Rightarrow>
     (let lv' = lv\<lparr>l_vxc := Some vxc, l_ebarKS := Some ebarKS,
                    l_taup_rho_KS := Some taup_rho_KS\<rparr>
      in case verror s' vxc (l_vxc_old lv) of
           Inl e \<Rightarrow> (Inl e, s')
         | Inr ve \<Rightarrow>
             if fl_less ve v_tol
             then (Inr (Break lv'), s'\<lparr>requests := requests s' @ [VxcStops]\<rparr>)
             else
            (case Derror s' (l_Da_old lv) of
               Inl e \<Rightarrow> (Inl e, s')
             | Inr de \<Rightarrow>
            (case eerror s' (l_eig_old lv) of
               Inl e \<Rightarrow> (Inl e, s')
             | Inr ee \<Rightarrow>
                 if fl_less de D_tol \<and> fl_less ee eig_tol
                 then (Inr (Break lv'), s'\<lparr>requests := requests s' @ [KSDFTStops]\<rparr>)
                 else update E frac_old mRKS_step lv' vxc s'))))"

text \<open>\<^verbatim>\<open>for mRKS_step in range(1, maxiter+1)\<close>\<close>

fun mRKS_loop ::
  "(int \<Rightarrow> loop_vars \<Rightarrow> 'op solver \<Rightarrow> (error + loop_vars flow) \<times> 'op solver) \<Rightarrow> int list
     \<Rightarrow> loop_vars \<Rightarrow> 'op solver \<Rightarrow> (error + loop_vars) \<times> 'op solver" where
  "mRKS_loop body [] lv s = (Inr lv, s)"
| "mRKS_loop body (mRKS_step # steps) lv s =
     (case body mRKS_step lv s of
        (Inl e, s') \<Rightarrow> (Inl e, s')
      | (Inr (Break lv'), s') \<Rightarrow> (Inr lv', s')
      | (Inr (Continue lv'), s') \<Rightarrow> mRKS_loop body steps lv' s')"

subsection \<open>The method \<^verbatim>\<open>mRKS\<close>\<close>

definition unsupported_wavefunction :: string where
  "unsupported_wavefunction =
     ''Currently only supports Psi4 CI wavefunctioninputs because Psi4 CCSD wavefunction currently does not support two-particle density matrices.''"

definition unsupported_spin :: string where
  "unsupported_spin =
     ''Currently only supports Spin-Restricted calculations since Spin-Unrestricted CI is not supported by Psi4.''"

definition hartree_needed :: string where
  "hartree_needed = ''Hartree potential is necessary as the guide potential.''"

text \<open>Lines 396 to 402: the spherical grid and its point count.\<close>

definition attach_grid :: "('pf, 'op) engine \<Rightarrow> 'op solver \<Rightarrow> 'op solver" where
  "attach_grid E s =
     s\<lparr>Vpot := build_grid E,
       npoints_DFT := sum_list (map npoints (build_grid E)),
       requests := requests s @ [BuildGrid]\<rparr>"

text \<open>
  Lines 406 to 470: the averaged orbital energy and the kinetic density of the reference
  wavefunction, after the memory estimate of the correlated branch.
\<close>

definition reference_properties :: "('pf, 'op) engine \<Rightarrow> 'op solver \<Rightarrow> error + vec \<times> vec" where
  "reference_properties E s =
     (if wfn_name s = ''CIWavefunction'' then
        (if real (nbf s ^ 4) * (8 / 10 ^ 9) * 2 > 2 then Inl MemoryException
         else
           (case (gfm_orbitals E, natural_orbitals E) of
              ((C_a_GFM, eigs_a_GFM), (C_a_NO, eigs_a_NO)) \<Rightarrow>
                bindE (average_local_orbital_energy E s (nt0 s) C_a_GFM eigs_a_GFM None)
                  (\<lambda>ebarWF.
                bindE (pauli_kinetic_energy_density E s (nt0 s) C_a_NO (Some eigs_a_NO) None)
                  (\<lambda>taup_rho_WF. Inr (ebarWF, taup_rho_WF)))))
      else if wfn_name s = ''RHF'' then
        bindE (average_local_orbital_energy E s (nt0 s) (map (take (nalpha s)) (ct0 s))
                 (epsilon_a_occ E) None)
          (\<lambda>ebarWF.
        bindE (pauli_kinetic_energy_density E s (nt0 s) (ct0 s) None None)
          (\<lambda>taup_rho_WF. Inr (ebarWF, taup_rho_WF)))
      else Inl (ValueError unsupported_spin))"

text \<open>Lines 477 to 488: the initial guess.\<close>

datatype init = Method string | Wavefunction mat mat vec

definition lower :: "string \<Rightarrow> string" where
  "lower = map (\<lambda>c. if 65 \<le> (of_char c :: nat) \<and> (of_char c :: nat) \<le> 90
                     then char_of (of_char c + (32 :: nat)) else c)"

definition initialise :: "('pf, 'op) engine \<Rightarrow> init \<Rightarrow> 'op solver \<Rightarrow> 'op solver" where
  "initialise E init s =
     (case init of
        Wavefunction da ca eps \<Rightarrow>
          s\<lparr>Da := da, Coca := map (take (nalpha s)) ca, eigvecs_a := eps\<rparr>
      | Method m \<Rightarrow>
          if lower m = ''continue'' then s
          else (case energy E (m @ ''/'' @ basis_str s) of
                  (da, ca, eps) \<Rightarrow>
                    s\<lparr>Da := da, Coca := map (take (nalpha s)) ca, eigvecs_a := eps,
                      requests := requests s @ [Energy (m @ ''/'' @ basis_str s)]\<rparr>))"

text \<open>Lines 533 to 558: everything again on the grid the caller asked for.\<close>

definition reference_on_grid ::
  "('pf, 'op) engine \<Rightarrow> 'op solver \<Rightarrow> 'pf grid \<Rightarrow> vec \<times> vec \<Rightarrow> error + vec \<times> vec" where
  "reference_on_grid E s grid_info before =
     (if wfn_name s = ''CIWavefunction'' then
        (case (gfm_orbitals E, natural_orbitals E) of
           ((C_a_GFM, eigs_a_GFM), (C_a_NO, eigs_a_NO)) \<Rightarrow>
             bindE (average_local_orbital_energy E s (nt0 s) C_a_GFM eigs_a_GFM (Some grid_info))
               (\<lambda>ebarWF.
             bindE (pauli_kinetic_energy_density E s (nt0 s) C_a_NO (Some eigs_a_NO)
                      (Some grid_info))
               (\<lambda>taup_rho_WF. Inr (ebarWF, taup_rho_WF))))
      else if wfn_name s = ''RHF'' then
        bindE (average_local_orbital_energy E s (nt0 s) (ct0 s)
                 (take (nalpha s) (epsilon_a_occ E)) (Some grid_info))
          (\<lambda>ebarWF.
        bindE (pauli_kinetic_energy_density E s (nt0 s) (ct0 s) None (Some grid_info))
          (\<lambda>taup_rho_WF. Inr (ebarWF, taup_rho_WF)))
      else Inr before)"

type_synonym fields = "vec \<times> vec \<times> vec \<times> vec \<times> vec \<times> vec"

definition on_output_grid ::
  "('pf, 'op) engine \<Rightarrow> mat \<Rightarrow> vec \<times> vec \<Rightarrow> 'op solver \<Rightarrow> (error + fields) \<times> 'op solver" where
  "on_output_grid E vxc_grid before s =
     (let grid_info = grid_to_blocks E vxc_grid;
          s1 = s\<lparr>requests := requests s @ [GridToBlocks]\<rparr>
      in case vxc_hole_quadrature E s1 (Some grid_info) (1 / 10 ^ 4) of
           (Inl e, s2) \<Rightarrow> (Inl e, s2)
         | (Inr vxchole, s2) \<Rightarrow>
        (case reference_on_grid E s2 grid_info before of
           Inl e \<Rightarrow> (Inl e, s2)
         | Inr (ebarWF, taup_rho_WF) \<Rightarrow>
        (case average_local_orbital_energy E s2 (Da s2) (Coca s2)
                (take (nalpha s2) (eigvecs_a s2)) (Some grid_info) of
           Inl e \<Rightarrow> (Inl e, s2)
         | Inr ebarKS \<Rightarrow>
        (case pauli_kinetic_energy_density E s2 (Da s2) (Coca s2) None (Some grid_info) of
           Inl e \<Rightarrow> (Inl e, s2)
         | Inr taup_rho_KS \<Rightarrow>
        (case potential_shift_output ebarWF ebarKS of
           Inl e \<Rightarrow> (Inl e, s2)
         | Inr potential_shift \<Rightarrow>
        (let s3 = s2\<lparr>shift := potential_shift\<rparr>
         in case assemble vxchole ebarKS ebarWF taup_rho_WF taup_rho_KS potential_shift of
              Inl e \<Rightarrow> (Inl e, s3)
            | Inr vxc \<Rightarrow>
                (Inr (vxc, vxchole, ebarKS, ebarWF, taup_rho_WF, taup_rho_KS), s3)))))))"

text \<open>
  The three checks of lines 380 to 391. Reading the first guide component of an empty
  list raises \<^verbatim>\<open>IndexError\<close>.
\<close>

definition check_configuration :: "'op solver \<Rightarrow> error option" where
  "check_configuration s =
     (if wfn_name s \<notin> set [''CIWavefunction'', ''RHF'']
        then Some (ValueError unsupported_wavefunction)
      else if ref s \<noteq> 1 then Some (ValueError unsupported_spin)
      else (case guide_potential_components s of
              [] \<Rightarrow> Some IndexError
            | g # _ \<Rightarrow> if g \<noteq> ''hartree'' then Some (ValueError hartree_needed) else None))"

definition loop_start :: loop_vars where
  "loop_start = \<lparr>l_vxc = None, l_ebarKS = None, l_taup_rho_KS = None,
                  l_vxc_old = Scalar 0, l_Da_old = Scalar 0, l_eig_old = Scalar 0\<rparr>"

text \<open>
  Line 560. Without an output grid the returned names are those the loop bound; a loop
  that never ran leaves them unbound.
\<close>

definition return_fields :: "loop_vars \<Rightarrow> reference \<Rightarrow> error + fields" where
  "return_fields lv R =
     (case (l_vxc lv, l_ebarKS lv, l_taup_rho_KS lv) of
        (Some vxc, Some ebarKS, Some taup_rho_KS) \<Rightarrow>
          Inr (vxc, r_vxchole R, ebarKS, r_ebarWF R, r_taup_rho_WF R, taup_rho_KS)
      | _ \<Rightarrow> Inl UnboundLocalError)"

text \<open>Lines 393 to 488: everything between the checks and the loop.\<close>

definition prepare ::
  "('pf, 'op) engine \<Rightarrow> 'op solver \<Rightarrow> init \<Rightarrow> (error + reference) \<times> 'op solver" where
  "prepare E s init =
     (let s1 = attach_grid E s
      in case reference_properties E s1 of
           Inl e \<Rightarrow> (Inl e, s1)
         | Inr (ebarWF, taup_rho_WF) \<Rightarrow>
        (case vxc_hole_quadrature E s1 None (1 / 10 ^ 4) of
           (Inl e, s2) \<Rightarrow> (Inl e, s2)
         | (Inr vxchole, s2) \<Rightarrow>
        (case np_max ebarWF of
           Inl e \<Rightarrow> (Inl e, s2)
         | Inr emax \<Rightarrow>
             (Inr \<lparr>r_vxchole = vxchole, r_ebarWF = ebarWF, r_taup_rho_WF = taup_rho_WF,
                   r_emax = emax\<rparr>,
              initialise E init s2))))"

definition mRKS ::
  "('pf, 'op) engine \<Rightarrow> 'op solver \<Rightarrow> int \<Rightarrow> mat option \<Rightarrow> real \<Rightarrow> real \<Rightarrow> real \<Rightarrow> real \<Rightarrow> init
     \<Rightarrow> (error + fields) \<times> 'op solver" where
  "mRKS E s maxiter vxc_grid v_tol D_tol eig_tol frac_old init =
     (case check_configuration s of
        Some e \<Rightarrow> (Inl e, s)
      | None \<Rightarrow>
     (case prepare E s init of
        (Inl e, s1) \<Rightarrow> (Inl e, s1)
      | (Inr R, s1) \<Rightarrow>
     (case mRKS_loop (iteration E R v_tol D_tol eig_tol frac_old) [1..maxiter] loop_start s1 of
        (Inl e, s2) \<Rightarrow> (Inl e, s2)
      | (Inr lv, s2) \<Rightarrow>
          (case vxc_grid of
             Some g \<Rightarrow> on_output_grid E g (r_ebarWF R, r_taup_rho_WF R) s2
           | None \<Rightarrow> (return_fields lv R, s2)))))"

subsection \<open>Closed forms used to state the theorems\<close>

text \<open>
  The entry of \<^verbatim>\<open>n_xc\<close> for point \<open>p\<close> of the outer block and point \<open>q\<close> of the
  inner block, for the two supported wavefunction kinds.
\<close>

definition n_xc_entry ::
  "('pf, 'op) engine \<Rightarrow> 'op solver \<Rightarrow> 'pf \<Rightarrow> block \<Rightarrow> block \<Rightarrow> nat \<Rightarrow> nat \<Rightarrow> real" where
  "n_xc_entry E s pf l_grid r_grid p q =
     (if wfn_name s = ''CIWavefunction''
      then pair_CI E pf l_grid r_grid p q * (1 / rho E pf (wfn_D2 E) l_grid p)
             - rho E pf (wfn_D2 E) r_grid q
      else - 2 * pair_RHF E pf l_grid r_grid p q * (1 / rho E pf (wfn_D2 E) l_grid p))"

text \<open>
  The inverse-distance kernel between two points: zero when the squared distance is
  within \<open>atol\<close> of zero, the reciprocal of the distance otherwise.
\<close>

definition coulomb_kernel :: "real \<Rightarrow> point \<Rightarrow> point \<Rightarrow> real" where
  "coulomb_kernel atol a b = (if isclose (R2 a b) 0 atol then 0 else 1 / sqrt (R2 a b))"

text \<open>
  The hole potential at point \<open>p\<close> of an outer block as a double sum over the blocks of
  a grid \<open>inner\<close> and their points.
\<close>

definition hole_sum ::
  "('pf, 'op) engine \<Rightarrow> 'op solver \<Rightarrow> 'pf \<Rightarrow> real \<Rightarrow> block list \<Rightarrow> block \<Rightarrow> nat \<Rightarrow> real" where
  "hole_sum E s pf atol inner l_grid p =
     (\<Sum>r_grid\<leftarrow>inner. \<Sum>q\<leftarrow>[0..<npoints r_grid].
        n_xc_entry E s pf l_grid r_grid p q
          * coulomb_kernel atol (pts l_grid ! p) (pts r_grid ! q)
          * pw (pts r_grid ! q))"

text \<open>
  What the loop keeps true from one iteration to the next: the grid attached before the
  loop and its point count, the reference fields on that grid, the spin restriction, and
  the shapes of the density matrix, of the occupied eigenvalues and of the saved copies.
\<close>

definition loop_invariant ::
  "('pf, 'op) engine \<Rightarrow> reference \<Rightarrow> nat list \<Rightarrow> nat \<Rightarrow> loop_vars \<Rightarrow> 'op solver \<Rightarrow> bool" where
  "loop_invariant E R shape n_eig lv s \<longleftrightarrow>
     Vpot s = build_grid E
     \<and> npoints_DFT s = sum_list (map npoints (build_grid E))
     \<and> 0 < npoints_DFT s
     \<and> length (r_vxchole R) = npoints_DFT s
     \<and> length (r_ebarWF R) = npoints_DFT s
     \<and> length (r_taup_rho_WF R) = npoints_DFT s
     \<and> ref s = 1
     \<and> map length (Da s) = shape
     \<and> length (take (nalpha s) (eigvecs_a s)) = n_eig
     \<and> (\<forall>v. l_vxc_old lv = Copy v \<longrightarrow> length v = npoints_DFT s)
     \<and> (\<forall>B. l_Da_old lv = Copy B \<longrightarrow> map length B = shape)
     \<and> (\<forall>e. l_eig_old lv = Copy e \<longrightarrow> length e = n_eig)"

text \<open>
  The engine's side of it: every diagonalisation returns a density matrix of the same
  shape and as many occupied eigenvalues.
\<close>

definition diagonalize_shapes :: "('pf, 'op) engine \<Rightarrow> nat \<Rightarrow> nat list \<Rightarrow> nat \<Rightarrow> bool" where
  "diagonalize_shapes E n_occ shape n_eig \<longleftrightarrow>
     (\<forall>f. case diagonalize E f n_occ of
            (ca, coca, da, eig) \<Rightarrow> map length da = shape \<and> length (take n_occ eig) = n_eig)"

text \<open>The number of re-diagonalisations among a list of requests.\<close>

definition diagonalizations :: "request list \<Rightarrow> nat" where
  "diagonalizations rs = length (filter (\<lambda>r. r = Diagonalize) rs)"

subsection \<open>A small instance\<close>

text \<open>
  A grid of one block with one point at the origin, one basis function and one occupied
  orbital, and an engine whose contractions are constant. The theorems below are applied
  to it. A second block, with one point at unit distance from the origin, serves as an
  output grid.
\<close>

definition origin_block :: block where
  "origin_block = \<lparr>pts = [\<lparr>px = 0, py = 0, pz = 0, pw = 1\<rparr>], functions_local_to_global = [0]\<rparr>"

definition x_block :: block where
  "x_block = \<lparr>pts = [\<lparr>px = 1, py = 0, pz = 0, pw = 2\<rparr>], functions_local_to_global = [0]\<rparr>"

definition unit_engine :: "(unit, unit) engine" where
  "unit_engine =
     \<lparr>internal_pf = (),
      build_grid = [origin_block],
      rho = (\<lambda>pf D b p. 1),
      ebar_num = (\<lambda>pf C eig b p. 0),
      pauli_sum = (\<lambda>pf C occ b p. 0),
      mpauli_sum = (\<lambda>pf C occ b p. 0),
      wfn_D2 = [[1]],
      pair_CI = (\<lambda>pf l r p q. 1),
      pair_RHF = (\<lambda>pf l r p q. 1),
      gfm_orbitals = ([[1]], [0]),
      natural_orbitals = ([[1]], [1]),
      epsilon_a_occ = [0],
      energy = (\<lambda>m. ([[0]], [[1]], [0])),
      dft_grid_to_fock = (\<lambda>v blocks. ()),
      op_add = (\<lambda>a b. ()),
      diagonalize = (\<lambda>f n. ([[1]], [[1]], [[0]], [0])),
      grid_to_blocks = (\<lambda>g. ([origin_block], 1, ()))\<rparr>"

definition unit_solver :: "unit solver" where
  "unit_solver =
     \<lparr>wfn_name = ''RHF'', ref = 1, guide_potential_components = [''hartree''],
      basis_str = ''sto-3g'', nbf = 1, nalpha = 1, nt0 = [[1]], ct0 = [[1]],
      op_T = (), op_V = (), op_va = (),
      Ca = [[1]], Coca = [[1]], Da = [[0]], eigvecs_a = [0],
      Cb = [[1]], Db = [[0]], eigvecs_b = [0],
      Vpot = [origin_block], npoints_DFT = 1, vxc_hole_WF = None, shift = 0,
      requests = []\<rparr>"

definition unit_reference :: reference where
  "unit_reference = \<lparr>r_vxchole = [0], r_ebarWF = [0], r_taup_rho_WF = [0], r_emax = 0\<rparr>"

section \<open>Properties\<close>

subsection \<open>Evaluation and elementwise arithmetic\<close>

lemmas quadrature_defs =
  average_local_orbital_energy_def pauli_kinetic_energy_density_def
  modified_pauli_kinetic_energy_density_def grid_of_def fully_integrated_def ebar_block_def
  pauli_block_def modified_pauli_block_def occ_or_ones_def npoints_def slice_set_def
  slice_add_def

lemmas hole_defs =
  vxc_hole_quadrature_def dvp_def block_pair_def n_xc_def products_def weighted_row_sums_def
  guard_def R2_matrix_def R2_def isclose_def Rinv_def

lemmas loop_defs =
  candidate_def potential_shift_loop_def np_max_def assemble_def ew_def ew2_def broadcast_def
  iteration_def verror_def Derror_def eerror_def sub_old_def sub_old2_def np_div_def
  norm_vec_def norm_mat_def update_def linear_mixture_def mix_def
  diagonalize_with_potential_mRKS_def Let_def

lemmas run_defs =
  mRKS_def check_configuration_def prepare_def attach_grid_def reference_properties_def
  initialise_def lower_def loop_start_def return_fields_def upto.simps

lemmas instance_defs =
  unit_engine_def unit_solver_def unit_reference_def origin_block_def x_block_def

lemma traverse_Inr: "traverse (\<lambda>a. Inr (g a)) as = Inr (map g as)"
  by (induction as) simp_all

lemma ew_same_length: "length as = length bs \<Longrightarrow> ew f as bs = Inr (map2 f as bs)"
proof -
  assume "length as = length bs"
  moreover have "(\<lambda>(a, b). Inr (f a b) :: error + real) = (\<lambda>ab. Inr (case ab of (a, b) \<Rightarrow> f a b))"
    by (simp add: fun_eq_iff)
  ultimately show ?thesis
    by (simp add: ew_def broadcast_def traverse_Inr)
qed

lemma np_max_Max:
  "np_max v = (if v = [] then Inl (ValueError ''zero-size array to reduction operation maximum'')
               else Inr (Max (set v)))"
proof (cases v)
  case Nil
  then show ?thesis by (simp add: np_max_def)
next
  case (Cons a as)
  then show ?thesis
    using Max.set_eq_fold [of a as] by (simp add: np_max_def)
qed

lemma update_never_breaks: "update E frac_old k lv vxc s \<noteq> (Inr (Break lv'), s')"
  by (auto simp: update_def Let_def split: sum.splits prod.splits)

lemma map2_mix_zero:
  "length old = length vxc \<Longrightarrow> map2 (\<lambda>a b. a * (1 - 0) + b * (0::real)) vxc old = vxc"
  by (induction vxc old rule: list_induct2') simp_all

subsection \<open>The order of the convergence checks\<close>

text \<open>
  Claim C1. In an iteration whose candidate potential \<open>vxc\<close> has been assembled and
  whose potential error \<open>ve\<close>, the norm of \<open>vxc - vxc_old\<close> over \<open>nbf\<^sup>2\<close>, has been
  computed: if \<open>ve\<close> is below \<open>v_tol\<close> the iteration breaks and the loop returns at once,
  whatever the density and eigenvalue errors are (they are not even computed); otherwise,
  if the density error is below \<open>D_tol\<close> and the eigenvalue error is below \<open>eig_tol\<close>, the
  iteration breaks and the loop returns at once; otherwise the iteration is the update
  step, which never breaks, and the loop goes on with the remaining steps: for a
  spin-restricted reference and a mixture of matching shapes the update step does not
  raise, so the loop does go on, from the mixed potential and a new diagonalisation.
\<close>

theorem convergence_checks_in_order:
  assumes "candidate E R s = (Inr (vxc, ebarKS, taup_rho_KS), s')"
      and "verror s' vxc (l_vxc_old lv) = Inr ve"
  shows
    "(fl_less ve v_tol \<longrightarrow>
        iteration E R v_tol D_tol eig_tol frac_old k lv s
          = (Inr (Break (lv\<lparr>l_vxc := Some vxc, l_ebarKS := Some ebarKS,
                              l_taup_rho_KS := Some taup_rho_KS\<rparr>)),
             s'\<lparr>requests := requests s' @ [VxcStops]\<rparr>)
        \<and> mRKS_loop (iteration E R v_tol D_tol eig_tol frac_old) (k # ks) lv s
          = (Inr (lv\<lparr>l_vxc := Some vxc, l_ebarKS := Some ebarKS,
                       l_taup_rho_KS := Some taup_rho_KS\<rparr>),
             s'\<lparr>requests := requests s' @ [VxcStops]\<rparr>))
     \<and> (\<not> fl_less ve v_tol \<longrightarrow> Derror s' (l_Da_old lv) = Inr de \<longrightarrow>
          eerror s' (l_eig_old lv) = Inr ee \<longrightarrow> fl_less de D_tol \<longrightarrow> fl_less ee eig_tol \<longrightarrow>
        iteration E R v_tol D_tol eig_tol frac_old k lv s
          = (Inr (Break (lv\<lparr>l_vxc := Some vxc, l_ebarKS := Some ebarKS,
                              l_taup_rho_KS := Some taup_rho_KS\<rparr>)),
             s'\<lparr>requests := requests s' @ [KSDFTStops]\<rparr>)
        \<and> mRKS_loop (iteration E R v_tol D_tol eig_tol frac_old) (k # ks) lv s
          = (Inr (lv\<lparr>l_vxc := Some vxc, l_ebarKS := Some ebarKS,
                       l_taup_rho_KS := Some taup_rho_KS\<rparr>),
             s'\<lparr>requests := requests s' @ [KSDFTStops]\<rparr>))
     \<and> (\<not> fl_less ve v_tol \<longrightarrow> Derror s' (l_Da_old lv) = Inr de \<longrightarrow>
          eerror s' (l_eig_old lv) = Inr ee \<longrightarrow> \<not> (fl_less de D_tol \<and> fl_less ee eig_tol) \<longrightarrow>
        iteration E R v_tol D_tol eig_tol frac_old k lv s
          = update E frac_old k (lv\<lparr>l_vxc := Some vxc, l_ebarKS := Some ebarKS,
                                    l_taup_rho_KS := Some taup_rho_KS\<rparr>) vxc s'
        \<and> (\<forall>lv' s''. iteration E R v_tol D_tol eig_tol frac_old k lv s
                        \<noteq> (Inr (Break lv'), s''))
        \<and> (\<forall>lv' s''. iteration E R v_tol D_tol eig_tol frac_old k lv s
                        = (Inr (Continue lv'), s'') \<longrightarrow>
              mRKS_loop (iteration E R v_tol D_tol eig_tol frac_old) (k # ks) lv s
                = mRKS_loop (iteration E R v_tol D_tol eig_tol frac_old) ks lv' s'')
        \<and> (ref s' = 1 \<longrightarrow> linear_mixture k vxc (l_vxc_old lv) frac_old = Inr mixed \<longrightarrow>
            (\<exists>lv' s''. iteration E R v_tol D_tol eig_tol frac_old k lv s
                           = (Inr (Continue lv'), s'')
               \<and> l_vxc_old lv' = Copy mixed
               \<and> requests s'' = requests s' @ [GridToFock mixed, Diagonalize]
               \<and> mRKS_loop (iteration E R v_tol D_tol eig_tol frac_old) (k # ks) lv s
                   = mRKS_loop (iteration E R v_tol D_tol eig_tol frac_old) ks lv' s'')))"
proof -
  have continues:
    "\<exists>lv' s''. update E frac_old k lv0 vxc s' = (Inr (Continue lv'), s'')
        \<and> l_vxc_old lv' = Copy mixed
        \<and> requests s'' = requests s' @ [GridToFock mixed, Diagonalize]"
    if "ref s' = 1" and "linear_mixture k vxc (l_vxc_old lv0) frac_old = Inr mixed"
    for lv0 mixed
    using that
    by (auto simp: update_def Let_def diagonalize_with_potential_mRKS_def split: prod.splits)
  show ?thesis
    using assms continues [of "lv\<lparr>l_vxc := Some vxc, l_ebarKS := Some ebarKS,
                                  l_taup_rho_KS := Some taup_rho_KS\<rparr>" mixed]
    by (auto simp: iteration_def Let_def update_never_breaks)
qed

theorem convergence_checks_in_order_witness:
  "candidate unit_engine unit_reference unit_solver = (Inr ([0], [0], [0]), unit_solver)
   \<and> verror unit_solver [0] (l_vxc_old loop_start) = Inr (Fin 0)
   \<and> fl_less (Fin 0) (1 / 10 ^ 4)
   \<and> mRKS_loop (iteration unit_engine unit_reference (1 / 10 ^ 4) (1 / 10 ^ 7) (1 / 10 ^ 4) 0)
        [1, 2] loop_start unit_solver
      = (Inr (loop_start\<lparr>l_vxc := Some [0], l_ebarKS := Some [0], l_taup_rho_KS := Some [0]\<rparr>),
         unit_solver\<lparr>requests := requests unit_solver @ [VxcStops]\<rparr>)
   \<and> \<not> fl_less (Fin 0) (- 1)
   \<and> Derror unit_solver (l_Da_old loop_start) = Inr (Fin 0)
   \<and> eerror unit_solver (l_eig_old loop_start) = Inr (Fin 0)
   \<and> mRKS_loop (iteration unit_engine unit_reference (- 1) 1 1 0) [1, 2] loop_start unit_solver
      = (Inr (loop_start\<lparr>l_vxc := Some [0], l_ebarKS := Some [0], l_taup_rho_KS := Some [0]\<rparr>),
         unit_solver\<lparr>requests := requests unit_solver @ [KSDFTStops]\<rparr>)
   \<and> iteration unit_engine unit_reference (- 1) (- 1) 1 0 1 loop_start unit_solver
      = update unit_engine 0 1
          (loop_start\<lparr>l_vxc := Some [0], l_ebarKS := Some [0], l_taup_rho_KS := Some [0]\<rparr>)
          [0] unit_solver"
proof -
  have c: "candidate unit_engine unit_reference unit_solver = (Inr ([0], [0], [0]), unit_solver)"
    by (simp add: loop_defs quadrature_defs instance_defs)
  have v: "verror unit_solver [0] (l_vxc_old loop_start) = Inr (Fin 0)"
    by (simp add: loop_defs loop_start_def instance_defs)
  have d: "Derror unit_solver (l_Da_old loop_start) = Inr (Fin 0)"
    by (simp add: loop_defs loop_start_def instance_defs)
  have e: "eerror unit_solver (l_eig_old loop_start) = Inr (Fin 0)"
    by (simp add: loop_defs loop_start_def instance_defs)
  show ?thesis
    using c v d e
      convergence_checks_in_order [OF c v, where v_tol = "1 / 10 ^ 4" and D_tol = "1 / 10 ^ 7"
        and eig_tol = "1 / 10 ^ 4" and frac_old = 0 and k = 1 and ks = "[2]"]
      convergence_checks_in_order [OF c v, where v_tol = "- 1" and D_tol = 1 and eig_tol = 1
        and frac_old = 0 and k = 1 and ks = "[2]" and de = "Fin 0" and ee = "Fin 0"]
      convergence_checks_in_order [OF c v, where v_tol = "- 1" and D_tol = "- 1" and eig_tol = 1
        and frac_old = 0 and k = 1 and ks = "[2]" and de = "Fin 0" and ee = "Fin 0"]
    by simp
qed

subsection \<open>The sign of the shift on the two paths\<close>



subsection \<open>Mixing\<close>

text \<open>
  Claim C6. In the first iteration the candidate is taken unmixed. In any other
  iteration, with a previous potential on the same grid, the mixed potential is
  \<open>new * (1 - frac_old) + previous * frac_old\<close> at every point, and with \<open>frac_old = 0\<close> it
  is the candidate itself. The update step saves the mixed potential as the new
  \<open>vxc_old\<close> and hands it to the Fock build before the re-diagonalisation.
\<close>

theorem linear_mixing:
  "linear_mixture 1 vxc vxc_old frac_old = Inr vxc
   \<and> (mRKS_step \<noteq> 1 \<longrightarrow> length old = length vxc \<longrightarrow>
        linear_mixture mRKS_step vxc (Copy old) frac_old
          = Inr (map2 (\<lambda>new previous. new * (1 - frac_old) + previous * frac_old) vxc old)
        \<and> linear_mixture mRKS_step vxc (Copy old) 0 = Inr vxc)
   \<and> (ref s = 1 \<longrightarrow> linear_mixture mRKS_step vxc (l_vxc_old lv) frac_old = Inr mixed \<longrightarrow>
        (\<exists>lv' s'. update E frac_old mRKS_step lv vxc s = (Inr (Continue lv'), s')
           \<and> l_vxc lv' = Some mixed \<and> l_vxc_old lv' = Copy mixed
           \<and> requests s' = requests s @ [GridToFock mixed, Diagonalize]))"
proof -
  have m: "map2 (+) (map (\<lambda>a. a * (1 - f)) vxc) (map (\<lambda>b. b * f) old)
           = map2 (\<lambda>new previous. new * (1 - f) + previous * f) vxc old" for f :: real
    by (simp add: zip_map1 zip_map2 split_def)
  have a: "length old = length vxc \<Longrightarrow>
        mix vxc (Copy old) f = Inr (map2 (\<lambda>new previous. new * (1 - f) + previous * f) vxc old)"
    for f
    by (simp add: mix_def ew_same_length m)
  have b: "ref s = 1 \<Longrightarrow> linear_mixture mRKS_step vxc (l_vxc_old lv) frac_old = Inr mixed \<Longrightarrow>
        (\<exists>lv' s'. update E frac_old mRKS_step lv vxc s = (Inr (Continue lv'), s')
           \<and> l_vxc lv' = Some mixed \<and> l_vxc_old lv' = Copy mixed
           \<and> requests s' = requests s @ [GridToFock mixed, Diagonalize])"
    by (simp add: update_def diagonalize_with_potential_mRKS_def Let_def split: prod.splits)
  show ?thesis
    using a [of frac_old] a [of 0] b map2_mix_zero [of old vxc]
    by (simp add: linear_mixture_def)
qed

theorem linear_mixing_witness:
  "(2::int) \<noteq> 1 \<and> length [1::real] = length [3::real] \<and> ref unit_solver = 1
   \<and> linear_mixture 2 [3] (Copy [1]) (1 / 2) = Inr [2]
   \<and> linear_mixture 2 [3] (Copy [1]) 0 = Inr [3]
   \<and> (\<exists>lv' s'. update unit_engine (1 / 2) 2 (loop_start\<lparr>l_vxc_old := Copy [1]\<rparr>) [3] unit_solver
                  = (Inr (Continue lv'), s')
        \<and> l_vxc lv' = Some [2] \<and> l_vxc_old lv' = Copy [2]
        \<and> requests s' = requests unit_solver @ [GridToFock [2], Diagonalize])"
  using linear_mixing [of "[3]" "Scalar 0" "1 / 2" 2 "[1]" unit_solver
          "loop_start\<lparr>l_vxc_old := Copy [1]\<rparr>" "[2]" unit_engine]
  by (simp add: unit_solver_def loop_start_def)

subsection \<open>Configuration errors\<close>

text \<open>
  Claim C8. When the wavefunction is of neither supported kind, or the reference is not
  spin-restricted, or there is a first guide-potential component and it is not the Hartree
  potential, \<open>mRKS\<close> raises \<^verbatim>\<open>ValueError\<close> and leaves the solver exactly as it was:
  no grid has been attached, no request has been sent to the engine, nothing is cached.
  With the first two checks passed and no guide-potential component at all, reading the
  first one raises \<^verbatim>\<open>IndexError\<close>, at the same place and with the solver as it was.
\<close>

theorem configuration_errors_first:
  fixes E :: "('pf, 'op) engine"
  shows
    "(wfn_name s \<notin> {''CIWavefunction'', ''RHF''} \<or> ref s \<noteq> 1
        \<or> (\<exists>g gs. guide_potential_components s = g # gs \<and> g \<noteq> ''hartree'')
      \<longrightarrow> (\<exists>msg \<in> {unsupported_wavefunction, unsupported_spin, hartree_needed}.
             mRKS E s maxiter vxc_grid v_tol D_tol eig_tol frac_old init
               = (Inl (ValueError msg), s)))
     \<and> (wfn_name s \<in> {''CIWavefunction'', ''RHF''} \<and> ref s = 1
          \<and> guide_potential_components s = []
      \<longrightarrow> mRKS E s maxiter vxc_grid v_tol D_tol eig_tol frac_old init = (Inl IndexError, s))"
  by (auto simp: mRKS_def check_configuration_def split: list.splits)

theorem configuration_errors_first_witness:
  "ref (unit_solver\<lparr>ref := 2\<rparr>) \<noteq> 1
   \<and> (\<exists>msg \<in> {unsupported_wavefunction, unsupported_spin, hartree_needed}.
        mRKS unit_engine (unit_solver\<lparr>ref := 2\<rparr>) 5 None (1 / 10 ^ 4) (1 / 10 ^ 7) (1 / 10 ^ 4) 0
          (Method ''svwn'')
        = (Inl (ValueError msg), unit_solver\<lparr>ref := 2\<rparr>))"
  using configuration_errors_first [where s = "unit_solver\<lparr>ref := 2\<rparr>" and E = unit_engine
          and maxiter = 5 and vxc_grid = None and v_tol = "1 / 10 ^ 4" and D_tol = "1 / 10 ^ 7"
          and eig_tol = "1 / 10 ^ 4" and frac_old = 0 and init = "Method ''svwn''"]
  by (simp add: unit_solver_def)

subsection \<open>Point accounting of the quadratures\<close>

lemma slice_set_fits:
  "length v = n \<Longrightarrow> lo + n \<le> length a \<Longrightarrow> slice_set a lo n v = Inr (take lo a @ v @ drop (lo + n) a)"
  by (simp add: slice_set_def Let_def min_def)

lemma slice_set_length: "slice_set a lo n v = Inr a' \<Longrightarrow> length a' = length a"
  by (auto simp: slice_set_def Let_def split: if_splits)

lemma slice_add_length: "slice_add a lo n v = Inr a' \<Longrightarrow> length a' = length a"
  by (auto simp: slice_add_def Let_def split: if_splits)

lemma fill_blocks_fits:
  assumes "\<forall>b \<in> set bs. length (f b) = npoints b"
      and "iw + sum_list (map npoints bs) \<le> length out"
  shows "fill_blocks f bs out iw
         = Inr (take iw out @ concat (map f bs) @ drop (iw + sum_list (map npoints bs)) out,
                iw + sum_list (map npoints bs))"
  using assms
proof (induction bs arbitrary: out iw)
  case Nil
  then show ?case by simp
next
  case (Cons b bs)
  have len: "length (f b) = npoints b" using Cons.prems(1) by simp
  have fit: "iw + npoints b \<le> length out" using Cons.prems(2) by simp
  let ?out' = "take iw out @ f b @ drop (iw + npoints b) out"
  have step: "slice_set out iw (npoints b) (f b) = Inr ?out'"
    using len fit by (rule slice_set_fits)
  have l': "length ?out' = length out" using len fit by simp
  have ih: "fill_blocks f bs ?out' (iw + npoints b)
            = Inr (take (iw + npoints b) ?out' @ concat (map f bs)
                     @ drop (iw + npoints b + sum_list (map npoints bs)) ?out',
                   iw + npoints b + sum_list (map npoints bs))"
    using Cons.prems by (intro Cons.IH) (simp_all add: l')
  have t: "take (iw + npoints b) ?out' = take iw out @ f b"
    using len fit by simp
  have d: "drop (iw + npoints b + sum_list (map npoints bs)) ?out'
           = drop (iw + npoints b + sum_list (map npoints bs)) out"
    using len fit by (simp add: add.commute)
  have "fill_blocks f (b # bs) out iw = fill_blocks f bs ?out' (iw + npoints b)"
    by (simp only: fill_blocks.simps step bindE.simps)
  also have "\<dots> = Inr ((take iw out @ f b) @ concat (map f bs)
                     @ drop (iw + npoints b + sum_list (map npoints bs)) out,
                   iw + npoints b + sum_list (map npoints bs))"
    by (simp only: ih t d)
  finally show ?case
    by (simp add: add.assoc)
qed

lemma fill_blocks_Inr:
  "fill_blocks f bs out iw = Inr (out', iw') \<Longrightarrow>
     iw' = iw + sum_list (map npoints bs) \<and> length out' = length out"
proof (induction bs arbitrary: out iw)
  case Nil
  then show ?case by simp
next
  case (Cons b bs)
  then obtain o1 where s: "slice_set out iw (npoints b) (f b) = Inr o1"
    and r: "fill_blocks f bs o1 (iw + npoints b) = Inr (out', iw')"
    by (cases "slice_set out iw (npoints b) (f b)") auto
  from Cons.IH [OF r] slice_set_length [OF s] show ?case by simp
qed

lemma pass_covered:
  assumes "\<forall>b \<in> set bs. length (f b) = npoints b" and "sum_list (map npoints bs) = n"
  shows "bindE (fill_blocks f bs (replicate n 0) 0) fully_integrated = Inr (concat (map f bs))"
proof -
  have "length (concat (map f bs)) = n"
    using assms by (simp add: length_concat comp_def cong: map_cong)
  then show ?thesis
    using fill_blocks_fits [OF assms(1), of 0 "replicate n 0"] assms(2)
    by (simp add: fully_integrated_def)
qed

lemma pass_uncovered:
  assumes "sum_list (map npoints bs) \<noteq> n"
  shows "\<exists>e. bindE (fill_blocks f bs (replicate n 0) 0) fully_integrated = Inl e"
proof (cases "fill_blocks f bs (replicate n 0) 0")
  case (Inl e)
  then show ?thesis by simp
next
  case (Inr r)
  obtain out' iw' where r: "r = (out', iw')" by (cases r)
  from fill_blocks_Inr [OF Inr [unfolded r]] assms show ?thesis
    by (simp add: Inr r fully_integrated_def)
qed

subsection \<open>The hole quadrature as a double sum\<close>


lemma guard_entrywise:
  "guard atol M = map (map (\<lambda>d. if isclose d 0 atol then Infinity else Finite d)) M"
proof (cases "list_ex (list_ex (\<lambda>d. isclose d 0 atol)) M")
  case True
  then show ?thesis by (simp add: guard_def)
next
  case False
  then have "\<forall>row \<in> set M. \<forall>d \<in> set row. \<not> isclose d 0 atol"
    by (auto simp: list_ex_iff)
  then have "map (map Finite) M = map (map (\<lambda>d. if isclose d 0 atol then Infinity else Finite d)) M"
    by (intro map_cong refl) simp
  with False show ?thesis by (simp add: guard_def)
qed

lemma Rinv_guard:
  "map (map Rinv) (guard atol (R2_matrix l_grid r_grid))
     = map (\<lambda>a. map (coulomb_kernel atol a) (pts r_grid)) (pts l_grid)"
  by (simp add: guard_entrywise R2_matrix_def Rinv_def coulomb_kernel_def comp_def if_distrib cong: if_cong)

lemma map2_same: "map2 h (map f xs) (map g xs) = map (\<lambda>x. h (f x) (g x)) xs"
  by (induction xs) simp_all

lemma n_xc_supported:
  "wfn_name s \<in> {''CIWavefunction'', ''RHF''} \<Longrightarrow>
     n_xc E s pf l_grid r_grid
       = Inr (map (\<lambda>p. map (n_xc_entry E s pf l_grid r_grid p) [0..<npoints r_grid])
                [0..<npoints l_grid])"
  by (auto simp: n_xc_def n_xc_entry_def)

lemma block_pair_sum:
  assumes "wfn_name s \<in> {''CIWavefunction'', ''RHF''}"
  shows "block_pair E s pf atol l_grid r_grid
         = Inr (map (\<lambda>p. \<Sum>q\<leftarrow>[0..<npoints r_grid].
                            n_xc_entry E s pf l_grid r_grid p q
                              * coulomb_kernel atol (pts l_grid ! p) (pts r_grid ! q)
                              * pw (pts r_grid ! q))
                  [0..<npoints l_grid])"
proof -
  have r: "pts r_grid = map (\<lambda>q. pts r_grid ! q) [0..<npoints r_grid]"
    by (simp add: npoints_def map_nth)
  have l: "pts l_grid = map (\<lambda>p. pts l_grid ! p) [0..<npoints l_grid]"
    by (simp add: npoints_def map_nth)
  have K: "map (\<lambda>a. map (coulomb_kernel atol a) (pts r_grid)) (pts l_grid)
           = map (\<lambda>p. map (\<lambda>q. coulomb_kernel atol (pts l_grid ! p) (pts r_grid ! q)) [0..<npoints r_grid])
               [0..<npoints l_grid]"
    by (subst l, subst r) (simp add: comp_def)
  have w: "map pw (pts r_grid) = map (\<lambda>q. pw (pts r_grid ! q)) [0..<npoints r_grid]"
    by (subst r) (simp add: comp_def)
  show ?thesis
    unfolding block_pair_def n_xc_supported [OF assms] bindE.simps weighted_row_sums_def
      products_def Rinv_guard K w
    by (simp add: map2_same comp_def)
qed

lemma inner_blocks_sum:
  assumes "\<forall>r \<in> set rs. c r = Inr (map (g r) [0..<n])"
  shows "inner_blocks c rs (map h [0..<n]) = Inr (map (\<lambda>p. h p + (\<Sum>r\<leftarrow>rs. g r p)) [0..<n])"
  using assms
proof (induction rs arbitrary: h)
  case Nil
  then show ?case by simp
next
  case (Cons r rs)
  have "inner_blocks c (r # rs) (map h [0..<n])
        = inner_blocks c rs (map (\<lambda>p. h p + g r p) [0..<n])"
    using Cons.prems by (simp add: map2_same)
  also have "\<dots> = Inr (map (\<lambda>p. (h p + g r p) + (\<Sum>r\<leftarrow>rs. g r p)) [0..<n])"
    using Cons.prems by (intro Cons.IH) simp
  finally show ?case by (simp add: add.assoc)
qed

lemma dvp_sum:
  assumes "wfn_name s \<in> {''CIWavefunction'', ''RHF''}"
  shows "dvp E s pf atol l_grid
         = Inr (map (hole_sum E s pf atol (Vpot s) l_grid) [0..<npoints l_grid])"
proof -
  have z: "replicate (npoints l_grid) (0::real) = map (\<lambda>p. 0) [0..<npoints l_grid]"
    by (simp add: map_replicate_const)
  show ?thesis
    unfolding dvp_def z
    by (subst inner_blocks_sum
          [where g = "\<lambda>r p. \<Sum>q\<leftarrow>[0..<npoints r].
                            n_xc_entry E s pf l_grid r p q
                              * coulomb_kernel atol (pts l_grid ! p) (pts r ! q) * pw (pts r ! q)"])
       (simp_all add: block_pair_sum [OF assms] hole_sum_def)
qed

lemma map2_add_zeros: "length d = n \<Longrightarrow> map2 (+) (replicate n (0::real)) d = d"
  by (induction d arbitrary: n) auto

lemma slice_add_zeros:
  assumes "length d = nb"
  shows "slice_add (pre @ replicate (nb + m) 0) (length pre) nb d = Inr (pre @ d @ replicate m 0)"
  using assms by (simp add: slice_add_def Let_def min_def map2_add_zeros)

lemma accum_blocks_fits:
  assumes "\<forall>b \<in> set bs. f b = Inr (g b) \<and> length (g b) = npoints b"
  shows "accum_blocks f bs (pre @ replicate (sum_list (map npoints bs) + k) 0) (length pre)
         = Inr (pre @ concat (map g bs) @ replicate k 0, length pre + sum_list (map npoints bs))"
  using assms
proof (induction bs arbitrary: pre)
  case Nil
  then show ?case by simp
next
  case (Cons b bs)
  have fb: "f b = Inr (g b)" and len: "length (g b) = npoints b"
    using Cons.prems by simp_all
  have step: "slice_add (pre @ replicate (npoints b + (sum_list (map npoints bs) + k)) 0)
                (length pre) (npoints b) (g b)
              = Inr (pre @ g b @ replicate (sum_list (map npoints bs) + k) 0)"
    using len by (rule slice_add_zeros)
  have ih: "accum_blocks f bs ((pre @ g b) @ replicate (sum_list (map npoints bs) + k) 0)
              (length (pre @ g b))
            = Inr ((pre @ g b) @ concat (map g bs) @ replicate k 0,
                   length (pre @ g b) + sum_list (map npoints bs))"
    using Cons.prems by (intro Cons.IH) simp
  show ?case
    using ih by (simp add: fb step len add.assoc)
qed

lemma accum_blocks_Inr:
  "accum_blocks f bs out iw = Inr (out', iw') \<Longrightarrow>
     iw' = iw + sum_list (map npoints bs) \<and> length out' = length out"
proof (induction bs arbitrary: out iw)
  case Nil
  then show ?case by simp
next
  case (Cons b bs)
  then obtain d o1 where "f b = Inr d" and s: "slice_add out iw (npoints b) d = Inr o1"
    and r: "accum_blocks f bs o1 (iw + npoints b) = Inr (out', iw')"
    by (cases "f b"; cases "slice_add out iw (npoints b) (projr (f b))") auto
  from Cons.IH [OF r] slice_add_length [OF s] show ?case by simp
qed

lemma hole_result:
  assumes name: "wfn_name s \<in> {''CIWavefunction'', ''RHF''}"
      and grid: "grid_of E s grid_info = (blocks, n, pf)"
      and fresh: "vxc_hole_WF s = None \<or> grid_info \<noteq> None"
      and cover: "sum_list (map npoints blocks) = n"
  shows "vxc_hole_quadrature E s grid_info atol
         = (Inr (concat (map (\<lambda>l_grid. map (hole_sum E s pf atol (Vpot s) l_grid)
                                          [0..<npoints l_grid]) blocks)),
            if grid_info = None
            then s\<lparr>vxc_hole_WF :=
                     Some (concat (map (\<lambda>l_grid. map (hole_sum E s pf atol (Vpot s) l_grid)
                                                  [0..<npoints l_grid]) blocks))\<rparr>
            else s)"
proof -
  let ?g = "\<lambda>l_grid. map (hole_sum E s pf atol (Vpot s) l_grid) [0..<npoints l_grid]"
  have "accum_blocks (dvp E s pf atol) blocks ([] @ replicate (sum_list (map npoints blocks) + 0) 0)
          (length ([] :: real list))
        = Inr ([] @ concat (map ?g blocks) @ replicate 0 0,
               length ([] :: real list) + sum_list (map npoints blocks))"
    by (rule accum_blocks_fits) (simp add: dvp_sum [OF name])
  then have acc: "accum_blocks (dvp E s pf atol) blocks (replicate n 0) 0
                  = Inr (concat (map ?g blocks), n)"
    using cover by simp
  have len: "length (concat (map ?g blocks)) = n"
    using cover by (simp add: length_concat comp_def)
  have fin: "bindE (accum_blocks (dvp E s pf atol) blocks (replicate n 0) 0) fully_integrated
             = Inr (concat (map ?g blocks))"
    by (simp add: acc fully_integrated_def len)
  show ?thesis
  proof (cases "grid_info = None")
    case True
    with fresh have n: "vxc_hole_WF s = None" by simp
    from grid True have g: "grid_of E s None = (blocks, n, pf)" by simp
    show ?thesis
      unfolding vxc_hole_quadrature_def True
      by (simp only: g fin n prod.case sum.case) simp
  next
    case False
    then show ?thesis
      unfolding vxc_hole_quadrature_def
      by (simp only: grid fin prod.case sum.case) simp
  qed
qed

lemma hole_uncovered:
  assumes grid: "grid_of E s grid_info = (blocks, n, pf)"
      and fresh: "vxc_hole_WF s = None \<or> grid_info \<noteq> None"
      and cover: "sum_list (map npoints blocks) \<noteq> n"
  shows "\<exists>e. vxc_hole_quadrature E s grid_info atol = (Inl e, s)"
proof -
  have "\<exists>e. bindE (accum_blocks (dvp E s pf atol) blocks (replicate n 0) 0) fully_integrated = Inl e"
  proof (cases "accum_blocks (dvp E s pf atol) blocks (replicate n 0) 0")
    case (Inl e)
    then show ?thesis by simp
  next
    case (Inr r)
    obtain out' iw' where r: "r = (out', iw')" by (cases r)
    from accum_blocks_Inr [OF Inr [unfolded r]] cover show ?thesis
      by (simp add: Inr r fully_integrated_def)
  qed
  then obtain e where
    "bindE (accum_blocks (dvp E s pf atol) blocks (replicate n 0) 0) fully_integrated = Inl e" ..
  then show ?thesis
    using fresh by (auto simp: vxc_hole_quadrature_def grid)
qed

lemma block_lengths [simp]:
  "length (ebar_block E pf D C eig b) = npoints b"
  "length (pauli_block E pf D C occ b) = npoints b"
  "length (modified_pauli_block E pf D C occ b) = npoints b"
  by (simp_all add: ebar_block_def pauli_block_def modified_pauli_block_def)


text \<open>
  Claim C5. For each of the four quadratures, on the grid it works on, with blocks
  \<open>blocks\<close> and an output array of \<open>n\<close> points: when the point counts of the blocks add
  up to \<open>n\<close>, the assertion after the loop holds, the quadrature returns, and the three
  single-loop quadratures return the values of the blocks one after the other, none cut
  short, while the hole quadrature (for a supported wavefunction, when it does not return
  its cache) returns an array of \<open>n\<close> points. When the counts do not add up to \<open>n\<close>, no
  quadrature returns an array: each one raises.
\<close>

theorem quadrature_passes_cover_grid:
  assumes "grid_of E s grid_info = (blocks, n, pf)"
  shows
    "(sum_list (map npoints blocks) = n \<longrightarrow>
        average_local_orbital_energy E s D C eig grid_info
          = Inr (concat (map (ebar_block E pf D C eig) blocks))
      \<and> pauli_kinetic_energy_density E s D C occ grid_info
          = Inr (concat (map (pauli_block E pf D C (occ_or_ones C occ)) blocks))
      \<and> modified_pauli_kinetic_energy_density E s D C occ grid_info
          = Inr (concat (map (modified_pauli_block E pf D C (occ_or_ones C occ)) blocks))
      \<and> (wfn_name s \<in> {''CIWavefunction'', ''RHF''} \<longrightarrow>
           vxc_hole_WF s = None \<or> grid_info \<noteq> None \<longrightarrow>
           (\<exists>vxchole. fst (vxc_hole_quadrature E s grid_info atol) = Inr vxchole
                     \<and> length vxchole = n)))
     \<and> (sum_list (map npoints blocks) \<noteq> n \<longrightarrow>
          (\<exists>e. average_local_orbital_energy E s D C eig grid_info = Inl e)
        \<and> (\<exists>e. pauli_kinetic_energy_density E s D C occ grid_info = Inl e)
        \<and> (\<exists>e. modified_pauli_kinetic_energy_density E s D C occ grid_info = Inl e)
        \<and> (vxc_hole_WF s = None \<or> grid_info \<noteq> None \<longrightarrow>
             (\<exists>e. fst (vxc_hole_quadrature E s grid_info atol) = Inl e)))"
proof (intro conjI impI)
  assume c: "sum_list (map npoints blocks) = n"
  show "average_local_orbital_energy E s D C eig grid_info
          = Inr (concat (map (ebar_block E pf D C eig) blocks))"
    using pass_covered [of blocks "ebar_block E pf D C eig" n] c assms
    by (simp add: average_local_orbital_energy_def)
  show "pauli_kinetic_energy_density E s D C occ grid_info
          = Inr (concat (map (pauli_block E pf D C (occ_or_ones C occ)) blocks))"
    using pass_covered [of blocks "pauli_block E pf D C (occ_or_ones C occ)" n] c assms
    by (simp add: pauli_kinetic_energy_density_def)
  show "modified_pauli_kinetic_energy_density E s D C occ grid_info
          = Inr (concat (map (modified_pauli_block E pf D C (occ_or_ones C occ)) blocks))"
    using pass_covered [of blocks "modified_pauli_block E pf D C (occ_or_ones C occ)" n] c assms
    by (simp add: modified_pauli_kinetic_energy_density_def)
  show "\<exists>vxchole. fst (vxc_hole_quadrature E s grid_info atol) = Inr vxchole \<and> length vxchole = n"
    if "wfn_name s \<in> {''CIWavefunction'', ''RHF''}" "vxc_hole_WF s = None \<or> grid_info \<noteq> None"
    using hole_result [OF that(1) assms that(2) c, of atol] c
    by (simp add: length_concat comp_def)
next
  assume c: "sum_list (map npoints blocks) \<noteq> n"
  show "\<exists>e. average_local_orbital_energy E s D C eig grid_info = Inl e"
    using pass_uncovered [of blocks n "ebar_block E pf D C eig"] c assms
    by (simp add: average_local_orbital_energy_def)
  show "\<exists>e. pauli_kinetic_energy_density E s D C occ grid_info = Inl e"
    using pass_uncovered [of blocks n "pauli_block E pf D C (occ_or_ones C occ)"] c assms
    by (simp add: pauli_kinetic_energy_density_def)
  show "\<exists>e. modified_pauli_kinetic_energy_density E s D C occ grid_info = Inl e"
    using pass_uncovered [of blocks n "modified_pauli_block E pf D C (occ_or_ones C occ)"] c assms
    by (simp add: modified_pauli_kinetic_energy_density_def)
  show "\<exists>e. fst (vxc_hole_quadrature E s grid_info atol) = Inl e"
    if "vxc_hole_WF s = None \<or> grid_info \<noteq> None"
    using hole_uncovered [OF assms that c, of atol] by auto
qed

theorem quadrature_passes_cover_grid_witness:
  "grid_of unit_engine unit_solver None = ([origin_block], 1, ())
   \<and> sum_list (map npoints [origin_block]) = 1
   \<and> average_local_orbital_energy unit_engine unit_solver [[0]] [[1]] [0] None = Inr [0]
   \<and> pauli_kinetic_energy_density unit_engine unit_solver [[0]] [[1]] None None = Inr [0]
   \<and> modified_pauli_kinetic_energy_density unit_engine unit_solver [[0]] [[1]] None None = Inr [0]
   \<and> (\<exists>vxchole. fst (vxc_hole_quadrature unit_engine unit_solver None (1 / 10 ^ 4)) = Inr vxchole
                 \<and> length vxchole = 1)
   \<and> grid_of unit_engine unit_solver (Some ([origin_block], 2, ())) = ([origin_block], 2, ())
   \<and> sum_list (map npoints [origin_block]) \<noteq> 2
   \<and> (\<exists>e. average_local_orbital_energy unit_engine unit_solver [[0]] [[1]] [0]
              (Some ([origin_block], 2, ())) = Inl e)
   \<and> (\<exists>e. fst (vxc_hole_quadrature unit_engine unit_solver (Some ([origin_block], 2, ()))
                   (1 / 10 ^ 4)) = Inl e)"
proof -
  have g1: "grid_of unit_engine unit_solver None = ([origin_block], 1, ())"
    by (simp add: grid_of_def instance_defs)
  have g2: "grid_of unit_engine unit_solver (Some ([origin_block], 2, ())) = ([origin_block], 2, ())"
    by (simp add: grid_of_def)
  have n: "sum_list (map npoints [origin_block]) = 1"
    by (simp add: npoints_def origin_block_def)
  have w: "wfn_name unit_solver = ''RHF''" "vxc_hole_WF unit_solver = None"
    by (simp_all add: unit_solver_def)
  show ?thesis
    using quadrature_passes_cover_grid [OF g1, of "[[0]]" "[[1]]" "[0]" None "1 / 10 ^ 4"]
          quadrature_passes_cover_grid [OF g2, of "[[0]]" "[[1]]" "[0]" None "1 / 10 ^ 4"] g1 g2 n w
    by (simp add: ebar_block_def pauli_block_def modified_pauli_block_def occ_or_ones_def
          npoints_def origin_block_def unit_engine_def)
qed

text \<open>
  Claim C9. Whatever grid the hole quadrature is given, the value at point \<open>p\<close> of an
  outer block is a sum over the blocks of the solver's own grid \<open>Vpot s\<close> and over their
  points, with their weights; the grid passed in supplies only the outer blocks (and the
  basis evaluator, which is applied to the blocks of \<open>Vpot s\<close> for the inner points). A
  run on a grid passed in leaves the solver, and so its cache, as it was.
\<close>

theorem hole_inner_grid_is_internal:
  assumes "wfn_name s \<in> {''CIWavefunction'', ''RHF''}"
      and "grid_of E s grid_info = (blocks, n, pf)"
      and "vxc_hole_WF s = None \<or> grid_info \<noteq> None"
      and "sum_list (map npoints blocks) = n"
  shows "fst (vxc_hole_quadrature E s grid_info atol)
         = Inr (concat (map (\<lambda>l_grid.
                  map (\<lambda>p. \<Sum>r_grid\<leftarrow>Vpot s. \<Sum>q\<leftarrow>[0..<npoints r_grid].
                             n_xc_entry E s pf l_grid r_grid p q
                               * coulomb_kernel atol (pts l_grid ! p) (pts r_grid ! q)
                               * pw (pts r_grid ! q))
                    [0..<npoints l_grid]) blocks))
       \<and> (grid_info \<noteq> None \<longrightarrow> snd (vxc_hole_quadrature E s grid_info atol) = s)"
proof -
  have "hole_sum E s pf atol (Vpot s)
        = (\<lambda>l_grid p. \<Sum>r_grid\<leftarrow>Vpot s. \<Sum>q\<leftarrow>[0..<npoints r_grid].
                             n_xc_entry E s pf l_grid r_grid p q
                               * coulomb_kernel atol (pts l_grid ! p) (pts r_grid ! q)
                               * pw (pts r_grid ! q))"
    by (simp add: fun_eq_iff hole_sum_def)
  then show ?thesis
    using hole_result [OF assms, of atol] by simp
qed

theorem hole_inner_grid_is_internal_witness:
  "wfn_name unit_solver \<in> {''CIWavefunction'', ''RHF''}
   \<and> grid_of unit_engine unit_solver (Some ([x_block], 1, ())) = ([x_block], 1, ())
   \<and> sum_list (map npoints [x_block]) = 1
   \<and> Vpot unit_solver = [origin_block]
   \<and> vxc_hole_quadrature unit_engine unit_solver (Some ([x_block], 1, ())) (1 / 10 ^ 4)
       = (Inr [- 2], unit_solver)"
proof -
  have g: "grid_of unit_engine unit_solver (Some ([x_block], 1, ())) = ([x_block], 1, ())"
    by (simp add: grid_of_def)
  have n: "sum_list (map npoints [x_block]) = 1"
    by (simp add: npoints_def x_block_def)
  have w: "wfn_name unit_solver \<in> {''CIWavefunction'', ''RHF''}"
    by (simp add: unit_solver_def)
  have v: "Vpot unit_solver = [origin_block]"
    by (simp add: unit_solver_def)
  have "fst (vxc_hole_quadrature unit_engine unit_solver (Some ([x_block], 1, ())) (1 / 10 ^ 4))
          = Inr [- 2]
        \<and> snd (vxc_hole_quadrature unit_engine unit_solver (Some ([x_block], 1, ())) (1 / 10 ^ 4))
          = unit_solver"
    using hole_inner_grid_is_internal [OF w g _ n, of "1 / 10 ^ 4"]
    by (simp add: v n_xc_entry_def coulomb_kernel_def R2_def isclose_def npoints_def
          x_block_def origin_block_def unit_engine_def) (simp add: unit_solver_def)
  then show ?thesis
    using g n w v by (simp add: prod_eq_iff)
qed



subsection \<open>What the preparation before the loop establishes\<close>

lemma pass_length:
  assumes "bindE (fill_blocks f bs (replicate n 0) 0) fully_integrated = Inr v"
  shows "length v = n" and "sum_list (map npoints bs) = n"
proof -
  obtain out iw where r: "fill_blocks f bs (replicate n 0) 0 = Inr (out, iw)"
    using assms by (cases "fill_blocks f bs (replicate n 0) 0") auto
  from r assms have "iw = length out" "v = out"
    by (auto simp: fully_integrated_def split: if_splits)
  with fill_blocks_Inr [OF r] show "length v = n" and "sum_list (map npoints bs) = n"
    by simp_all
qed

lemma average_length:
  "average_local_orbital_energy E s D C eig None = Inr v \<Longrightarrow> length v = npoints_DFT s"
  by (auto simp: average_local_orbital_energy_def grid_of_def dest: pass_length(1))

lemma pauli_length:
  "pauli_kinetic_energy_density E s D C occ None = Inr v \<Longrightarrow> length v = npoints_DFT s"
  by (auto simp: pauli_kinetic_energy_density_def grid_of_def dest: pass_length(1))

lemma hole_length:
  assumes "vxc_hole_quadrature E s None atol = (Inr v, s')" and "vxc_hole_WF s = None"
  shows "length v = npoints_DFT s"
proof -
  let ?r = "accum_blocks (dvp E s (internal_pf E) atol) (Vpot s) (replicate (npoints_DFT s) 0) 0"
  from assms have b: "bindE ?r fully_integrated = Inr v"
    by (auto simp: vxc_hole_quadrature_def grid_of_def split: sum.splits)
  then obtain out iw where r: "?r = Inr (out, iw)"
    by (cases ?r) auto
  from r b have "v = out"
    by (auto simp: fully_integrated_def split: if_splits)
  with accum_blocks_Inr [OF r] show ?thesis by simp
qed


lemma assemble_same_length:
  assumes "length a = n" "length b = n" "length c = n" "length d = n" "length e = n"
  shows "assemble a b c d e sh
         = Inr (map (\<lambda>i. a ! i + b ! i - c ! i + d ! i - e ! i + sh) [0..<n])"
proof -
  have "map (\<lambda>x. x + sh) (map2 (-) (map2 (+) (map2 (-) (map2 (+) a b) c) d) e)
        = map (\<lambda>i. a ! i + b ! i - c ! i + d ! i - e ! i + sh) [0..<n]"
    using assms by (intro nth_equalityI) simp_all
  then show ?thesis
    using assms by (simp add: assemble_def ew_same_length)
qed

lemma reference_properties_lengths:
  assumes "reference_properties E s = Inr (ebarWF, taup_rho_WF)"
  shows "length ebarWF = npoints_DFT s" and "length taup_rho_WF = npoints_DFT s"
proof -
  have "length ebarWF = npoints_DFT s \<and> length taup_rho_WF = npoints_DFT s"
  proof (cases "wfn_name s = ''CIWavefunction''")
    case True
    obtain C1 e1 C2 e2 where o: "gfm_orbitals E = (C1, e1)" "natural_orbitals E = (C2, e2)"
      by (cases "gfm_orbitals E"; cases "natural_orbitals E") auto
    from assms True o
    have "bindE (average_local_orbital_energy E s (nt0 s) C1 e1 None)
            (\<lambda>a. bindE (pauli_kinetic_energy_density E s (nt0 s) C2 (Some e2) None)
                    (\<lambda>b. Inr (a, b))) = Inr (ebarWF, taup_rho_WF)"
      by (simp add: reference_properties_def split: if_splits)
    then show ?thesis
      by (cases "average_local_orbital_energy E s (nt0 s) C1 e1 None";
          cases "pauli_kinetic_energy_density E s (nt0 s) C2 (Some e2) None")
         (auto dest: average_length pauli_length)
  next
    case False
    with assms
    have "bindE (average_local_orbital_energy E s (nt0 s) (map (take (nalpha s)) (ct0 s))
                   (epsilon_a_occ E) None)
            (\<lambda>a. bindE (pauli_kinetic_energy_density E s (nt0 s) (ct0 s) None None)
                    (\<lambda>b. Inr (a, b))) = Inr (ebarWF, taup_rho_WF)"
      by (simp add: reference_properties_def split: if_splits)
    then show ?thesis
      by (cases "average_local_orbital_energy E s (nt0 s) (map (take (nalpha s)) (ct0 s))
                   (epsilon_a_occ E) None";
          cases "pauli_kinetic_energy_density E s (nt0 s) (ct0 s) None None")
         (auto dest: average_length pauli_length)
  qed
  then show "length ebarWF = npoints_DFT s" and "length taup_rho_WF = npoints_DFT s"
    by simp_all
qed

lemma prepare_Inr:
  assumes p: "prepare E s init = (Inr R, s1)" and fresh: "vxc_hole_WF s = None"
  shows "length (r_vxchole R) = sum_list (map npoints (build_grid E))
       \<and> length (r_ebarWF R) = sum_list (map npoints (build_grid E))
       \<and> length (r_taup_rho_WF R) = sum_list (map npoints (build_grid E))
       \<and> np_max (r_ebarWF R) = Inr (r_emax R)
       \<and> (\<exists>v. s1 = initialise E init ((attach_grid E s)\<lparr>vxc_hole_WF := Some v\<rparr>))"
proof -
  let ?s = "attach_grid E s"
  have n: "npoints_DFT ?s = sum_list (map npoints (build_grid E))" and f: "vxc_hole_WF ?s = None"
    using fresh by (simp_all add: attach_grid_def)
  obtain ebarWF taup_rho_WF where rp: "reference_properties E ?s = Inr (ebarWF, taup_rho_WF)"
    using p by (cases "reference_properties E ?s") (auto simp: prepare_def Let_def)
  obtain h s2 where hq: "vxc_hole_quadrature E ?s None (1 / 10 ^ 4) = (h, s2)"
    by (cases "vxc_hole_quadrature E ?s None (1 / 10 ^ 4)") auto
  obtain vxchole where h: "h = Inr vxchole"
    using p rp hq by (cases h) (auto simp: prepare_def Let_def)
  obtain emax where m: "np_max ebarWF = Inr emax"
    using p rp hq h by (cases "np_max ebarWF") (auto simp: prepare_def Let_def)
  have R: "R = \<lparr>r_vxchole = vxchole, r_ebarWF = ebarWF, r_taup_rho_WF = taup_rho_WF, r_emax = emax\<rparr>"
    and s1: "s1 = initialise E init s2"
    using p rp hq h m by (simp_all add: prepare_def Let_def)
  have "s2 = ?s\<lparr>vxc_hole_WF := Some vxchole\<rparr>"
    using hq f unfolding h
    by (auto simp: vxc_hole_quadrature_def split: prod.splits sum.splits if_splits)
  with s1 have "\<exists>v. s1 = initialise E init (?s\<lparr>vxc_hole_WF := Some v\<rparr>)" by blast
  moreover have "length vxchole = sum_list (map npoints (build_grid E))"
    using hole_length [OF hq [unfolded h] f] n by simp
  ultimately show ?thesis
    using reference_properties_lengths [OF rp] n m by (simp add: R)
qed

lemma candidate_Inr:
  assumes "candidate E R s = (Inr (vxc, ebarKS, taup_rho_KS), s')"
  shows "average_local_orbital_energy E s (Da s) (Coca s) (take (nalpha s) (eigvecs_a s)) None
           = Inr ebarKS"
    and "pauli_kinetic_energy_density E s (Da s) (Coca s) None None = Inr taup_rho_KS"
    and "potential_shift_loop (r_emax R) ebarKS = Inr (shift s')"
    and "s' = s\<lparr>shift := shift s'\<rparr>"
    and "assemble (r_vxchole R) ebarKS (r_ebarWF R) (r_taup_rho_WF R) taup_rho_KS (shift s')
           = Inr vxc"
proof -
  let ?a = "average_local_orbital_energy E s (Da s) (Coca s) (take (nalpha s) (eigvecs_a s)) None"
  let ?p = "pauli_kinetic_energy_density E s (Da s) (Coca s) None None"
  obtain a where a: "?a = Inr a"
    using assms by (cases ?a) (auto simp: candidate_def)
  obtain t where t: "?p = Inr t"
    using assms a by (cases ?p) (auto simp: candidate_def)
  obtain sh where sh: "potential_shift_loop (r_emax R) a = Inr sh"
    using assms a t by (cases "potential_shift_loop (r_emax R) a") (auto simp: candidate_def)
  obtain v where v: "assemble (r_vxchole R) a (r_ebarWF R) (r_taup_rho_WF R) t sh = Inr v"
    using assms a t sh
    by (cases "assemble (r_vxchole R) a (r_ebarWF R) (r_taup_rho_WF R) t sh")
       (auto simp: candidate_def Let_def)
  have e: "vxc = v" "ebarKS = a" "taup_rho_KS = t" "s' = s\<lparr>shift := sh\<rparr>"
    using assms a t sh v by (simp_all add: candidate_def Let_def)
  then have s: "shift s' = sh" by simp
  show "?a = Inr ebarKS" "?p = Inr taup_rho_KS"
    "potential_shift_loop (r_emax R) ebarKS = Inr (shift s')"
    "s' = s\<lparr>shift := shift s'\<rparr>"
    "assemble (r_vxchole R) ebarKS (r_ebarWF R) (r_taup_rho_WF R) taup_rho_KS (shift s') = Inr vxc"
    using a t sh v e(4) unfolding s e(1-3) by simp_all
qed

lemma initialise_grid [simp]:
  "npoints_DFT (initialise E init s) = npoints_DFT s"
  "Vpot (initialise E init s) = Vpot s"
  "ref (initialise E init s) = ref s"
  "nbf (initialise E init s) = nbf s"
  "nalpha (initialise E init s) = nalpha s"
  "wfn_name (initialise E init s) = wfn_name s"
  "vxc_hole_WF (initialise E init s) = vxc_hole_WF s"
  by (simp_all add: initialise_def split: init.splits prod.splits)



subsection \<open>The loop keeps its invariant\<close>

lemma traverse_all_Inr:
  "(\<And>x. x \<in> set xs \<Longrightarrow> \<exists>y. f x = Inr y) \<Longrightarrow> \<exists>ys. traverse f xs = Inr ys"
proof (induction xs)
  case Nil
  then show ?case by simp
next
  case (Cons x xs)
  then obtain y ys where "f x = Inr y" "traverse f xs = Inr ys"
    by (metis list.set_intros(1) list.set_intros(2))
  then show ?case by simp
qed

lemma ew2_same_shape:
  assumes "map length A = map length B"
  shows "\<exists>M. ew2 f A B = Inr M"
proof -
  have l: "length A = length B"
    using assms by (rule map_eq_imp_length_eq)
  have "\<exists>y. (case x of (a, b) \<Rightarrow> ew f a b) = Inr y" if x: "x \<in> set (zip A B)" for x
  proof -
    obtain i where i: "i < length A" "x = (A ! i, B ! i)"
      using x l by (auto simp: set_zip)
    have "length (A ! i) = map length A ! i" "length (B ! i) = map length B ! i"
      using i l by simp_all
    then have "length (A ! i) = length (B ! i)"
      using assms by simp
    then show ?thesis
      using i by (simp add: ew_same_length)
  qed
  then have "\<exists>M. traverse (\<lambda>(a, b). ew f a b) (zip A B) = Inr M"
    by (rule traverse_all_Inr)
  then show ?thesis
    using l by (simp add: ew2_def broadcast_def)
qed

lemma sub_old_ok:
  assumes "\<And>u. old = Copy u \<Longrightarrow> length u = length v"
  shows "\<exists>d. sub_old v old = Inr d"
  using assms by (cases old) (simp_all add: sub_old_def ew_same_length)

lemma sub_old2_ok:
  assumes "\<And>B. old = Copy B \<Longrightarrow> map length B = map length A"
  shows "\<exists>d. sub_old2 A old = Inr d"
proof (cases old)
  case (Scalar c)
  then show ?thesis by (simp add: sub_old2_def)
next
  case (Copy B)
  with assms have "map length A = map length B" by simp
  from ew2_same_shape [OF this, of "(-)"] Copy show ?thesis
    by (simp add: sub_old2_def)
qed

lemma linear_mixture_ok:
  assumes "\<And>u. old = Copy u \<Longrightarrow> length u = length vxc"
  shows "\<exists>m. linear_mixture k vxc old frac_old = Inr m \<and> length m = length vxc"
  using assms by (cases old) (simp_all add: linear_mixture_def mix_def ew_same_length)

lemma average_internal:
  "sum_list (map npoints (Vpot s)) = npoints_DFT s \<Longrightarrow>
     \<exists>v. average_local_orbital_energy E s D C eig None = Inr v \<and> length v = npoints_DFT s"
  using pass_covered [of "Vpot s" "ebar_block E (internal_pf E) D C eig" "npoints_DFT s"]
  by (simp add: average_local_orbital_energy_def grid_of_def length_concat comp_def)

lemma pauli_internal:
  "sum_list (map npoints (Vpot s)) = npoints_DFT s \<Longrightarrow>
     \<exists>v. pauli_kinetic_energy_density E s D C occ None = Inr v \<and> length v = npoints_DFT s"
  using pass_covered [of "Vpot s" "pauli_block E (internal_pf E) D C (occ_or_ones C occ)"
          "npoints_DFT s"]
  by (simp add: pauli_kinetic_energy_density_def grid_of_def length_concat comp_def)

lemma candidate_ok:
  assumes "loop_invariant E R shape n_eig lv s"
  shows "\<exists>vxc ebarKS taup_rho_KS sh.
           candidate E R s = (Inr (vxc, ebarKS, taup_rho_KS), s\<lparr>shift := sh\<rparr>)
           \<and> length vxc = npoints_DFT s"
proof -
  let ?n = "npoints_DFT s"
  have g: "sum_list (map npoints (Vpot s)) = ?n" and pos: "0 < ?n"
    and l: "length (r_vxchole R) = ?n" "length (r_ebarWF R) = ?n" "length (r_taup_rho_WF R) = ?n"
    using assms by (simp_all add: loop_invariant_def)
  obtain a where a: "average_local_orbital_energy E s (Da s) (Coca s)
                       (take (nalpha s) (eigvecs_a s)) None = Inr a" "length a = ?n"
    using average_internal [OF g] by blast
  obtain t where t: "pauli_kinetic_energy_density E s (Da s) (Coca s) None None = Inr t"
    "length t = ?n"
    using pauli_internal [OF g] by blast
  have "a \<noteq> []" using a(2) pos by auto
  then have sh: "potential_shift_loop (r_emax R) a = Inr (r_emax R - Max (set a))"
    by (simp add: potential_shift_loop_def np_max_Max)
  have v: "assemble (r_vxchole R) a (r_ebarWF R) (r_taup_rho_WF R) t (r_emax R - Max (set a))
           = Inr (map (\<lambda>i. r_vxchole R ! i + a ! i - r_ebarWF R ! i + r_taup_rho_WF R ! i - t ! i
                            + (r_emax R - Max (set a))) [0..<?n])"
    using l a(2) t(2) by (intro assemble_same_length)
  show ?thesis
    by (rule exI [of _ "map (\<lambda>i. r_vxchole R ! i + a ! i - r_ebarWF R ! i + r_taup_rho_WF R ! i
                              - t ! i + (r_emax R - Max (set a))) [0..<?n]"],
        rule exI [of _ a], rule exI [of _ t], rule exI [of _ "r_emax R - Max (set a)"])
       (simp add: candidate_def a(1) t(1) sh v Let_def)
qed

lemma diag_inv:
  assumes r: "ref s = 1" and c: "diagonalize_shapes E (nalpha s) shape n_eig"
  shows "\<exists>s'. diagonalize_with_potential_mRKS E v s = (Inr (), s')
            \<and> requests s' = requests s @ [Diagonalize]
            \<and> Vpot s' = Vpot s \<and> npoints_DFT s' = npoints_DFT s \<and> ref s' = 1
            \<and> nalpha s' = nalpha s
            \<and> map length (Da s') = shape
            \<and> length (take (nalpha s') (eigvecs_a s')) = n_eig"
proof -
  let ?f = "case v of
              None \<Rightarrow> op_add E (op_add E (op_V s) (op_T s)) (op_va s)
            | Some v' \<Rightarrow> op_add E (op_add E (op_add E (op_V s) (op_T s)) (op_va s)) v'"
  obtain ca coca da eig where d: "diagonalize E ?f (nalpha s) = (ca, coca, da, eig)"
    by (cases "diagonalize E ?f (nalpha s)") auto
  from c have "map length da = shape \<and> length (take (nalpha s) eig) = n_eig"
    unfolding diagonalize_shapes_def using d by (auto dest: spec [of _ ?f])
  then show ?thesis
    using r by (simp add: diagonalize_with_potential_mRKS_def Let_def d)
qed

lemma update_ok:
  assumes r: "ref s = 1" and c: "diagonalize_shapes E (nalpha s) shape n_eig"
      and o: "\<And>u. l_vxc_old lv = Copy u \<Longrightarrow> length u = length vxc"
  shows "\<exists>lv' s' m. update E frac_old k lv vxc s = (Inr (Continue lv'), s')
            \<and> length m = length vxc
            \<and> l_vxc lv' = Some m \<and> l_ebarKS lv' = l_ebarKS lv
            \<and> l_taup_rho_KS lv' = l_taup_rho_KS lv
            \<and> l_vxc_old lv' = Copy m \<and> l_Da_old lv' = Copy (Da s)
            \<and> l_eig_old lv' = Copy (take (nalpha s) (eigvecs_a s))
            \<and> requests s' = requests s @ [GridToFock m, Diagonalize]
            \<and> Vpot s' = Vpot s \<and> npoints_DFT s' = npoints_DFT s \<and> ref s' = 1
            \<and> nalpha s' = nalpha s
            \<and> map length (Da s') = shape
            \<and> length (take (nalpha s') (eigvecs_a s')) = n_eig"
proof -
  obtain m where m: "linear_mixture k vxc (l_vxc_old lv) frac_old = Inr m" "length m = length vxc"
    using linear_mixture_ok [of "l_vxc_old lv" vxc k frac_old] o by blast
  let ?s = "s\<lparr>requests := requests s @ [GridToFock m]\<rparr>"
  have "ref ?s = 1" "diagonalize_shapes E (nalpha ?s) shape n_eig"
    using r c by simp_all
  from diag_inv [OF this, of "Some (dft_grid_to_fock E m (Vpot ?s))"]
  obtain s' where d: "diagonalize_with_potential_mRKS E (Some (dft_grid_to_fock E m (Vpot ?s))) ?s
                      = (Inr (), s')"
    and p: "requests s' = requests ?s @ [Diagonalize]" "Vpot s' = Vpot ?s"
      "npoints_DFT s' = npoints_DFT ?s" "ref s' = 1" "nalpha s' = nalpha ?s"
      "map length (Da s') = shape" "length (take (nalpha s') (eigvecs_a s')) = n_eig"
    by blast
  have "update E frac_old k lv vxc s
        = (Inr (Continue (lv\<lparr>l_vxc := Some m, l_vxc_old := Copy m, l_Da_old := Copy (Da s),
                               l_eig_old := Copy (take (nalpha s) (eigvecs_a s))\<rparr>)), s')"
    using d by (simp add: update_def m(1) Let_def)
  then show ?thesis
    using p m(2) by simp
qed

lemma iteration_step:
  assumes inv: "loop_invariant E R shape n_eig lv s"
      and c: "diagonalize_shapes E (nalpha s) shape n_eig"
  shows "(\<exists>lv' s'. iteration E R v_tol D_tol eig_tol frac_old k lv s = (Inr (Break lv'), s')
            \<and> (requests s' = requests s @ [VxcStops] \<or> requests s' = requests s @ [KSDFTStops])
            \<and> l_vxc lv' \<noteq> None \<and> l_ebarKS lv' \<noteq> None \<and> l_taup_rho_KS lv' \<noteq> None)
       \<or> (\<exists>lv' s' m. iteration E R v_tol D_tol eig_tol frac_old k lv s = (Inr (Continue lv'), s')
            \<and> requests s' = requests s @ [GridToFock m, Diagonalize]
            \<and> l_vxc lv' = Some m \<and> l_ebarKS lv' \<noteq> None \<and> l_taup_rho_KS lv' \<noteq> None
            \<and> loop_invariant E R shape n_eig lv' s' \<and> nalpha s' = nalpha s)"
proof -
  from candidate_ok [OF inv] obtain vxc ebarKS taup_rho_KS sh where
    cand: "candidate E R s = (Inr (vxc, ebarKS, taup_rho_KS), s\<lparr>shift := sh\<rparr>)"
    and len: "length vxc = npoints_DFT s"
    by blast
  let ?s = "s\<lparr>shift := sh\<rparr>"
  let ?lv = "lv\<lparr>l_vxc := Some vxc, l_ebarKS := Some ebarKS, l_taup_rho_KS := Some taup_rho_KS\<rparr>"
  have i: "Vpot s = build_grid E" "npoints_DFT s = sum_list (map npoints (build_grid E))"
    "0 < npoints_DFT s" "length (r_vxchole R) = npoints_DFT s"
    "length (r_ebarWF R) = npoints_DFT s" "length (r_taup_rho_WF R) = npoints_DFT s"
    "ref s = 1" "map length (Da s) = shape" "length (take (nalpha s) (eigvecs_a s)) = n_eig"
    and o: "\<And>v. l_vxc_old lv = Copy v \<Longrightarrow> length v = npoints_DFT s"
      "\<And>B. l_Da_old lv = Copy B \<Longrightarrow> map length B = shape"
      "\<And>e. l_eig_old lv = Copy e \<Longrightarrow> length e = n_eig"
    using inv by (simp_all add: loop_invariant_def)
  obtain dv where dv: "sub_old vxc (l_vxc_old lv) = Inr dv"
    using sub_old_ok [of "l_vxc_old lv" vxc] o(1) len by auto
  then obtain ve where ve: "verror ?s vxc (l_vxc_old lv) = Inr ve"
    by (simp add: verror_def)
  show ?thesis
  proof (cases "fl_less ve v_tol")
    case True
    then have "iteration E R v_tol D_tol eig_tol frac_old k lv s
               = (Inr (Break ?lv), ?s\<lparr>requests := requests ?s @ [VxcStops]\<rparr>)"
      by (simp add: iteration_def cand ve Let_def)
    then show ?thesis by simp
  next
    case nv: False
    obtain dD where "sub_old2 (Da ?s) (l_Da_old lv) = Inr dD"
      using sub_old2_ok [of "l_Da_old lv" "Da ?s"] o(2) i(8) by auto
    then obtain de where de: "Derror ?s (l_Da_old lv) = Inr de"
      by (simp add: Derror_def)
    obtain dE where "sub_old (take (nalpha ?s) (eigvecs_a ?s)) (l_eig_old lv) = Inr dE"
      using sub_old_ok [of "l_eig_old lv" "take (nalpha ?s) (eigvecs_a ?s)"] o(3) i(9) by auto
    then obtain ee where ee: "eerror ?s (l_eig_old lv) = Inr ee"
      by (simp add: eerror_def)
    show ?thesis
    proof (cases "fl_less de D_tol \<and> fl_less ee eig_tol")
      case True
      then have "iteration E R v_tol D_tol eig_tol frac_old k lv s
                 = (Inr (Break ?lv), ?s\<lparr>requests := requests ?s @ [KSDFTStops]\<rparr>)"
        using nv by (simp add: iteration_def cand ve de ee Let_def)
      then show ?thesis by simp
    next
      case False
      then have it: "iteration E R v_tol D_tol eig_tol frac_old k lv s
                     = update E frac_old k ?lv vxc ?s"
        using nv by (auto simp: iteration_def cand ve de ee Let_def)
      have "ref ?s = 1" "diagonalize_shapes E (nalpha ?s) shape n_eig"
        "\<And>u. l_vxc_old ?lv = Copy u \<Longrightarrow> length u = length vxc"
        using i(7) c o(1) len by simp_all
      from update_ok [OF this, where frac_old = frac_old and k = k]
      obtain lv' s' m where u: "update E frac_old k ?lv vxc ?s = (Inr (Continue lv'), s')"
        and p: "length m = length vxc" "l_vxc lv' = Some m" "l_ebarKS lv' = l_ebarKS ?lv"
          "l_taup_rho_KS lv' = l_taup_rho_KS ?lv" "l_vxc_old lv' = Copy m"
          "l_Da_old lv' = Copy (Da ?s)" "l_eig_old lv' = Copy (take (nalpha ?s) (eigvecs_a ?s))"
          "requests s' = requests ?s @ [GridToFock m, Diagonalize]" "Vpot s' = Vpot ?s"
          "npoints_DFT s' = npoints_DFT ?s" "ref s' = 1" "nalpha s' = nalpha ?s"
          "map length (Da s') = shape" "length (take (nalpha s') (eigvecs_a s')) = n_eig"
        by blast
      have "loop_invariant E R shape n_eig lv' s'"
        using p i len by (simp add: loop_invariant_def)
      then show ?thesis
        using it u p by simp
    qed
  qed
qed

lemma diagonalizations_simps [simp]:
  "diagonalizations [] = 0"
  "diagonalizations (a @ b) = diagonalizations a + diagonalizations b"
  "diagonalizations (Diagonalize # a) = Suc (diagonalizations a)"
  "diagonalizations (GridToFock m # a) = diagonalizations a"
  "diagonalizations (VxcStops # a) = diagonalizations a"
  "diagonalizations (KSDFTStops # a) = diagonalizations a"
  "diagonalizations (BuildGrid # a) = diagonalizations a"
  "diagonalizations (Energy e # a) = diagonalizations a"
  by (simp_all add: diagonalizations_def)

lemma loop_runs:
  assumes "loop_invariant E R shape n_eig lv s"
      and "diagonalize_shapes E (nalpha s) shape n_eig"
  shows "\<exists>lv' s' new.
           mRKS_loop (iteration E R v_tol D_tol eig_tol frac_old) ks lv s = (Inr lv', s')
           \<and> requests s' = requests s @ new
           \<and> (((VxcStops \<in> set new \<or> KSDFTStops \<in> set new) \<and> diagonalizations new < length ks)
              \<or> (VxcStops \<notin> set new \<and> KSDFTStops \<notin> set new \<and> diagonalizations new = length ks
                  \<and> (ks \<noteq> [] \<longrightarrow>
                       (\<exists>m pre. l_vxc lv' = Some m \<and> new = pre @ [GridToFock m, Diagonalize]))))
           \<and> (ks \<noteq> [] \<longrightarrow> l_vxc lv' \<noteq> None \<and> l_ebarKS lv' \<noteq> None \<and> l_taup_rho_KS lv' \<noteq> None)"
  using assms
proof (induction ks arbitrary: lv s)
  case Nil
  show ?case
    by (rule exI [of _ lv], rule exI [of _ s], rule exI [of _ "[]"]) simp
next
  case (Cons k ks)
  let ?body = "iteration E R v_tol D_tol eig_tol frac_old"
  from iteration_step [OF Cons.prems, of v_tol D_tol eig_tol frac_old k]
  consider
    (stop) lv' s' where "?body k lv s = (Inr (Break lv'), s')"
      "requests s' = requests s @ [VxcStops] \<or> requests s' = requests s @ [KSDFTStops]"
      "l_vxc lv' \<noteq> None" "l_ebarKS lv' \<noteq> None" "l_taup_rho_KS lv' \<noteq> None"
  | (go) lv' s' m where "?body k lv s = (Inr (Continue lv'), s')"
      "requests s' = requests s @ [GridToFock m, Diagonalize]"
      "l_vxc lv' = Some m" "l_ebarKS lv' \<noteq> None" "l_taup_rho_KS lv' \<noteq> None"
      "loop_invariant E R shape n_eig lv' s'" "nalpha s' = nalpha s"
    by blast
  then show ?case
  proof cases
    case stop
    from stop(2) obtain e where e: "e = VxcStops \<or> e = KSDFTStops" "requests s' = requests s @ [e]"
      by blast
    show ?thesis
      by (rule exI [of _ lv'], rule exI [of _ s'], rule exI [of _ "[e]"])
         (use stop e in auto)
  next
    case go
    have "diagonalize_shapes E (nalpha s') shape n_eig"
      using Cons.prems(2) go(7) by simp
    from Cons.IH [OF go(6) this] obtain lv2 s2 new2 where
      r: "mRKS_loop ?body ks lv' s' = (Inr lv2, s2)"
      and q: "requests s2 = requests s' @ new2"
      and d: "((VxcStops \<in> set new2 \<or> KSDFTStops \<in> set new2) \<and> diagonalizations new2 < length ks)
              \<or> (VxcStops \<notin> set new2 \<and> KSDFTStops \<notin> set new2 \<and> diagonalizations new2 = length ks
                  \<and> (ks \<noteq> [] \<longrightarrow>
                       (\<exists>m pre. l_vxc lv2 = Some m \<and> new2 = pre @ [GridToFock m, Diagonalize])))"
      and b: "ks \<noteq> [] \<longrightarrow> l_vxc lv2 \<noteq> None \<and> l_ebarKS lv2 \<noteq> None \<and> l_taup_rho_KS lv2 \<noteq> None"
      by blast
    have e: "lv2 = lv' \<and> new2 = []" if "ks = []"
      using that r q by simp
    have last: "\<exists>m' pre. l_vxc lv2 = Some m' \<and> [GridToFock m, Diagonalize] @ new2
                  = pre @ [GridToFock m', Diagonalize]"
      if n: "VxcStops \<notin> set new2" "KSDFTStops \<notin> set new2"
    proof (cases "ks = []")
      case True
      with e go(3) show ?thesis by auto
    next
      case False
      with d n obtain m' pre where "l_vxc lv2 = Some m'" "new2 = pre @ [GridToFock m', Diagonalize]"
        by blast
      then show ?thesis
        by (intro exI [of _ m'] exI [of _ "[GridToFock m, Diagonalize] @ pre"]) simp
    qed
    have bound: "l_vxc lv2 \<noteq> None \<and> l_ebarKS lv2 \<noteq> None \<and> l_taup_rho_KS lv2 \<noteq> None"
      using b e go(3-5) by (cases "ks = []") auto
    show ?thesis
      by (rule exI [of _ lv2], rule exI [of _ s2],
          rule exI [of _ "[GridToFock m, Diagonalize] @ new2"])
         (use go(1,2) r q d last bound in auto)
  qed
qed

lemma check_ok:
  assumes "check_configuration s = None"
  shows "wfn_name s \<in> {''CIWavefunction'', ''RHF''}" and "ref s = 1"
  using assms by (auto simp: check_configuration_def split: if_splits list.splits)

lemma reference_properties_ok:
  assumes g: "sum_list (map npoints (Vpot s)) = npoints_DFT s"
      and n: "wfn_name s \<in> {''CIWavefunction'', ''RHF''}"
      and m: "wfn_name s = ''CIWavefunction'' \<longrightarrow> real (nbf s ^ 4) * (8 / 10 ^ 9) * 2 \<le> 2"
  shows "\<exists>a t. reference_properties E s = Inr (a, t)"
proof (cases "wfn_name s = ''CIWavefunction''")
  case True
  obtain C1 e1 C2 e2 where o: "gfm_orbitals E = (C1, e1)" "natural_orbitals E = (C2, e2)"
    by (cases "gfm_orbitals E"; cases "natural_orbitals E") auto
  obtain a t where "average_local_orbital_energy E s (nt0 s) C1 e1 None = Inr a"
    "pauli_kinetic_energy_density E s (nt0 s) C2 (Some e2) None = Inr t"
    using average_internal [OF g] pauli_internal [OF g] by blast
  then show ?thesis
    using True m o by (simp add: reference_properties_def)
next
  case False
  with n have r: "wfn_name s = ''RHF''" by simp
  obtain a t where
    "average_local_orbital_energy E s (nt0 s) (map (take (nalpha s)) (ct0 s)) (epsilon_a_occ E) None
       = Inr a"
    "pauli_kinetic_energy_density E s (nt0 s) (ct0 s) None None = Inr t"
    using average_internal [OF g] pauli_internal [OF g] by blast
  then show ?thesis
    using False r by (simp add: reference_properties_def)
qed

lemma prepare_ok:
  fixes E :: "('pf, 'op) engine"
  assumes n: "wfn_name s \<in> {''CIWavefunction'', ''RHF''}"
      and m: "wfn_name s = ''CIWavefunction'' \<longrightarrow> real (nbf s ^ 4) * (8 / 10 ^ 9) * 2 \<le> 2"
      and fresh: "vxc_hole_WF s = None"
      and pts: "0 < sum_list (map npoints (build_grid E))"
  shows "\<exists>R s1. prepare E s init = (Inr R, s1)"
proof -
  let ?s = "attach_grid E s"
  have a: "sum_list (map npoints (Vpot ?s)) = npoints_DFT ?s"
    "wfn_name ?s \<in> {''CIWavefunction'', ''RHF''}"
    "wfn_name ?s = ''CIWavefunction'' \<longrightarrow> real (nbf ?s ^ 4) * (8 / 10 ^ 9) * 2 \<le> 2"
    "vxc_hole_WF ?s = None \<or> (None :: 'pf grid option) \<noteq> None"
    "grid_of E ?s None = (Vpot ?s, npoints_DFT ?s, internal_pf E)"
    "npoints_DFT ?s = sum_list (map npoints (build_grid E))"
    using n m fresh by (simp_all add: attach_grid_def grid_of_def)
  obtain ebarWF taup_rho_WF where rp: "reference_properties E ?s = Inr (ebarWF, taup_rho_WF)"
    using reference_properties_ok [OF a(1-3)] by blast
  obtain H s2 where h: "vxc_hole_quadrature E ?s None (1 / 10 ^ 4) = (Inr H, s2)"
    using hole_result [OF a(2) a(5) a(4) a(1), of "1 / 10 ^ 4"] by simp
  have "length ebarWF = sum_list (map npoints (build_grid E))"
    using reference_properties_lengths(1) [OF rp] a(6) by (simp only:)
  with pts have "0 < length ebarWF"
    by (simp only:)
  then have "ebarWF \<noteq> []"
    by auto
  then have mx: "np_max ebarWF = Inr (Max (set ebarWF))"
    by (simp add: np_max_Max)
  show ?thesis
    using h by (simp add: prepare_def Let_def rp mx)
qed

lemma initialise_state:
  assumes "nalpha s2 = nalpha s" "basis_str s2 = basis_str s" "Da s2 = Da s"
    "eigvecs_a s2 = eigvecs_a s"
  shows "Da (initialise E init s2) = Da (initialise E init s)"
    and "eigvecs_a (initialise E init s2) = eigvecs_a (initialise E init s)"
  using assms by (simp_all add: initialise_def split: init.splits prod.splits)

lemma initialise_requests:
  "\<exists>extra. requests (initialise E init s) = requests s @ extra
           \<and> diagonalizations extra = 0 \<and> VxcStops \<notin> set extra \<and> KSDFTStops \<notin> set extra"
proof (cases init)
  case (Method m)
  show ?thesis
  proof (cases "lower m = ''continue''")
    case True
    with Method show ?thesis by (simp add: initialise_def)
  next
    case False
    obtain da ca eps where "energy E (m @ ''/'' @ basis_str s) = (da, ca, eps)"
      by (cases "energy E (m @ ''/'' @ basis_str s)") auto
    with Method False show ?thesis
      by (intro exI [of _ "[Energy (m @ ''/'' @ basis_str s)]"]) (simp add: initialise_def)
  qed
next
  case (Wavefunction da ca eps)
  then show ?thesis by (simp add: initialise_def)
qed

text \<open>
  The loop run to exhaustion, for at least one iteration. Take a configuration that passes
  the checks, a grid with at least one point, no cached hole potential, and an engine whose
  diagonalisations keep the shape of the density matrix and the number of occupied
  eigenvalues. If \<open>maxiter\<close> is at least one and the run, without an output grid, sends
  neither of the two messages of convergence, then it does not raise: it returns the six
  fields, its potential being the one handed to the engine in the last iteration, and
  it has requested exactly \<open>maxiter\<close> re-diagonalisations.
\<close>

theorem exhausting_maxiter:
  assumes cfg: "check_configuration s = None"
      and mem: "wfn_name s = ''CIWavefunction'' \<longrightarrow> real (nbf s ^ 4) * (8 / 10 ^ 9) * 2 \<le> 2"
      and fresh: "vxc_hole_WF s = None"
      and pts: "0 < sum_list (map npoints (build_grid E))"
      and shapes: "diagonalize_shapes E (nalpha s) (map length (Da (initialise E init s)))
                     (length (take (nalpha s) (eigvecs_a (initialise E init s))))"
      and iters: "1 \<le> maxiter"
      and run: "mRKS E s maxiter None v_tol D_tol eig_tol frac_old init = (r, s')"
      and new: "requests s' = requests s @ new"
      and never: "VxcStops \<notin> set new" "KSDFTStops \<notin> set new"
  shows "\<exists>vxc vxchole ebarKS ebarWF taup_rho_WF taup_rho_KS pre.
           r = Inr (vxc, vxchole, ebarKS, ebarWF, taup_rho_WF, taup_rho_KS)
           \<and> new = pre @ [GridToFock vxc, Diagonalize]
           \<and> diagonalizations new = nat maxiter"
proof -
  let ?body = "iteration E R v_tol D_tol eig_tol frac_old"
  note c = check_ok [OF cfg]
  obtain R s1 where p: "prepare E s init = (Inr R, s1)"
    using prepare_ok [OF c(1) mem fresh pts] by blast
  from prepare_Inr [OF p fresh] obtain v where
    l: "length (r_vxchole R) = sum_list (map npoints (build_grid E))"
      "length (r_ebarWF R) = sum_list (map npoints (build_grid E))"
      "length (r_taup_rho_WF R) = sum_list (map npoints (build_grid E))"
    and s1: "s1 = initialise E init ((attach_grid E s)\<lparr>vxc_hole_WF := Some v\<rparr>)"
    by blast
  let ?s = "(attach_grid E s)\<lparr>vxc_hole_WF := Some v\<rparr>"
  have st: "Da s1 = Da (initialise E init s)" "eigvecs_a s1 = eigvecs_a (initialise E init s)"
    unfolding s1 by (rule initialise_state; simp add: attach_grid_def)+
  have f: "Vpot s1 = build_grid E" "npoints_DFT s1 = sum_list (map npoints (build_grid E))"
    "ref s1 = 1" "nalpha s1 = nalpha s"
    unfolding s1 using c(2) by (simp_all add: attach_grid_def)
  obtain extra where x: "requests s1 = requests ?s @ extra" "diagonalizations extra = 0"
    "VxcStops \<notin> set extra" "KSDFTStops \<notin> set extra"
    unfolding s1 using initialise_requests [of E init ?s] by blast
  have q1: "requests s1 = requests s @ [BuildGrid] @ extra"
    using x(1) by (simp add: attach_grid_def)
  have inv: "loop_invariant E R (map length (Da (initialise E init s)))
               (length (take (nalpha s) (eigvecs_a (initialise E init s)))) loop_start s1"
    using l f st pts by (simp add: loop_invariant_def loop_start_def)
  have sh: "diagonalize_shapes E (nalpha s1) (map length (Da (initialise E init s)))
              (length (take (nalpha s) (eigvecs_a (initialise E init s))))"
    using shapes f(4) by simp
  from loop_runs [OF inv sh, where v_tol = v_tol and D_tol = D_tol and eig_tol = eig_tol
         and frac_old = frac_old and ks = "[1..maxiter]"]
  obtain lv' s2 new2 where
    lp: "mRKS_loop (iteration E R v_tol D_tol eig_tol frac_old) [1..maxiter] loop_start s1
           = (Inr lv', s2)"
    and q2: "requests s2 = requests s1 @ new2"
    and d: "((VxcStops \<in> set new2 \<or> KSDFTStops \<in> set new2)
               \<and> diagonalizations new2 < length [1..maxiter])
            \<or> (VxcStops \<notin> set new2 \<and> KSDFTStops \<notin> set new2
                \<and> diagonalizations new2 = length [1..maxiter]
                \<and> ([1..maxiter] \<noteq> [] \<longrightarrow>
                     (\<exists>m pre. l_vxc lv' = Some m \<and> new2 = pre @ [GridToFock m, Diagonalize])))"
    and b: "[1..maxiter] \<noteq> [] \<longrightarrow>
              l_vxc lv' \<noteq> None \<and> l_ebarKS lv' \<noteq> None \<and> l_taup_rho_KS lv' \<noteq> None"
    by blast
  have ne: "[1..maxiter] \<noteq> []"
    using iters by (simp add: upto.simps)
  have res: "r = return_fields lv' R" "s' = s2"
    using run by (simp_all add: mRKS_def cfg p lp)
  have nw: "new = [BuildGrid] @ extra @ new2"
    using new q1 q2 res(2) by simp
  with never have "VxcStops \<notin> set new2" "KSDFTStops \<notin> set new2"
    by simp_all
  with d ne obtain m pre where e: "diagonalizations new2 = nat maxiter" "l_vxc lv' = Some m"
    "new2 = pre @ [GridToFock m, Diagonalize]"
    by auto
  from b ne e(2) obtain a t where bt: "l_ebarKS lv' = Some a" "l_taup_rho_KS lv' = Some t"
    by auto
  have "r = Inr (m, r_vxchole R, a, r_ebarWF R, r_taup_rho_WF R, t)"
    using res(1) e(2) bt by (simp add: return_fields_def)
  moreover have "new = ([BuildGrid] @ extra @ pre) @ [GridToFock m, Diagonalize]"
    using nw e(3) by simp
  moreover have "diagonalizations new = nat maxiter"
    using nw e(1) x(2) by simp
  ultimately show ?thesis by blast
qed

theorem exhausting_maxiter_witness:
  "check_configuration unit_solver = None
   \<and> vxc_hole_WF unit_solver = None
   \<and> 0 < sum_list (map npoints (build_grid unit_engine))
   \<and> diagonalize_shapes unit_engine (nalpha unit_solver)
        (map length (Da (initialise unit_engine (Method ''continue'') unit_solver)))
        (length (take (nalpha unit_solver)
           (eigvecs_a (initialise unit_engine (Method ''continue'') unit_solver))))
   \<and> mRKS unit_engine unit_solver 2 None (- 1) (- 1) (- 1) 0 (Method ''continue'')
       = (Inr ([0], [0], [0], [0], [0], [0]),
          unit_solver\<lparr>vxc_hole_WF := Some [0],
            requests := [BuildGrid, GridToFock [0], Diagonalize, GridToFock [0], Diagonalize]\<rparr>)
   \<and> diagonalizations [BuildGrid, GridToFock [0], Diagonalize, GridToFock [0], Diagonalize]
       = nat 2"
proof -
  let ?new = "[BuildGrid, GridToFock [0], Diagonalize, GridToFock [0], Diagonalize]"
  let ?s' = "unit_solver\<lparr>vxc_hole_WF := Some [0], requests := ?new\<rparr>"
  have cfg: "check_configuration unit_solver = None"
    by (simp add: check_configuration_def unit_solver_def)
  have mem: "wfn_name unit_solver = ''CIWavefunction''
             \<longrightarrow> real (nbf unit_solver ^ 4) * (8 / 10 ^ 9) * 2 \<le> 2"
    by (simp add: unit_solver_def)
  have fresh: "vxc_hole_WF unit_solver = None"
    by (simp add: unit_solver_def)
  have pts: "0 < sum_list (map npoints (build_grid unit_engine))"
    by (simp add: unit_engine_def origin_block_def npoints_def)
  have shapes: "diagonalize_shapes unit_engine (nalpha unit_solver)
        (map length (Da (initialise unit_engine (Method ''continue'') unit_solver)))
        (length (take (nalpha unit_solver)
           (eigvecs_a (initialise unit_engine (Method ''continue'') unit_solver))))"
    by (simp add: diagonalize_shapes_def initialise_def lower_def unit_engine_def unit_solver_def)
  have run: "mRKS unit_engine unit_solver 2 None (- 1) (- 1) (- 1) 0 (Method ''continue'')
             = (Inr ([0], [0], [0], [0], [0], [0]), ?s')"
    by (simp add: run_defs hole_defs loop_defs quadrature_defs instance_defs)
  have new: "requests ?s' = requests unit_solver @ ?new"
    by (simp add: unit_solver_def)
  have never: "VxcStops \<notin> set ?new" "KSDFTStops \<notin> set ?new"
    by simp_all
  show ?thesis
    using exhausting_maxiter [OF cfg mem fresh pts shapes _ run new never] cfg fresh pts shapes run
    by simp
qed

text \<open>
  Claim C7 at \<open>maxiter = 0\<close>. No convergence condition is ever satisfied and the loop
  performs its zero iterations, but the run does not return: without an output grid, line
  560 reads \<^verbatim>\<open>vxc\<close>, \<^verbatim>\<open>ebarKS\<close> and \<^verbatim>\<open>taup_rho_KS\<close>, which only the loop body
  binds, and raises \<^verbatim>\<open>UnboundLocalError\<close>. With an output grid the same run returns
  its six fields, since lines 533 to 558 bind each of them.
\<close>

theorem maxiter_zero_raises:
  "mRKS unit_engine unit_solver 0 None (- 1) (- 1) (- 1) 0 (Method ''continue'')
     = (Inl UnboundLocalError, unit_solver\<lparr>vxc_hole_WF := Some [0], requests := [BuildGrid]\<rparr>)
   \<and> mRKS unit_engine unit_solver 0 (Some [[0, 0, 0]]) (- 1) (- 1) (- 1) 0 (Method ''continue'')
     = (Inr ([0], [0], [0], [0], [0], [0]),
        unit_solver\<lparr>vxc_hole_WF := Some [0], requests := [BuildGrid, GridToBlocks]\<rparr>)"
  by (simp add: run_defs on_output_grid_def reference_on_grid_def potential_shift_output_def
        hole_defs loop_defs quadrature_defs instance_defs)

subsection \<open>The first iteration\<close>

lemma first_errors:
  "verror s vxc (Scalar 0) = Inr (np_div (norm_vec vxc) (nbf s ^ 2))"
  "Derror s (Scalar 0) = Inr (np_div (norm_mat (Da s)) (nbf s ^ 2))"
  "eerror s (Scalar 0) = Inr (np_div (norm_vec (take (nalpha s) (eigvecs_a s))) (nalpha s))"
  by (simp_all add: verror_def Derror_def eerror_def sub_old_def sub_old2_def)

lemma candidate_requests:
  assumes "candidate E R s = (Inr (vxc, ebarKS, taup_rho_KS), s')"
  shows "requests s' = requests s"
proof -
  have "s' = s\<lparr>shift := shift s'\<rparr>"
    by (rule candidate_Inr(4) [OF assms])
  then have "requests s' = requests (s\<lparr>shift := shift s'\<rparr>)"
    by simp
  then show ?thesis by simp
qed

text \<open>
  Claim C10. The loop starts with the three baselines equal to the scalar zero, so in the
  first iteration the three error measures are the norm of the potential over \<open>nbf\<^sup>2\<close>,
  the norm of the density matrix over \<open>nbf\<^sup>2\<close> and the norm of the occupied eigenvalues
  over their number. Whenever the first of them is below \<open>v_tol\<close>, the loop returns in its
  first iteration and the only request it has added is the message that the potential
  stopped updating: no re-diagonalisation has been requested.
\<close>

theorem first_iteration_baselines:
  "l_vxc_old loop_start = Scalar 0 \<and> l_Da_old loop_start = Scalar 0
   \<and> l_eig_old loop_start = Scalar 0
   \<and> verror s vxc (l_vxc_old loop_start) = Inr (np_div (norm_vec vxc) (nbf s ^ 2))
   \<and> Derror s (l_Da_old loop_start) = Inr (np_div (norm_mat (Da s)) (nbf s ^ 2))
   \<and> eerror s (l_eig_old loop_start)
       = Inr (np_div (norm_vec (take (nalpha s) (eigvecs_a s))) (nalpha s))
   \<and> (candidate E R s = (Inr (vxc, ebarKS, taup_rho_KS), s1) \<longrightarrow>
        fl_less (np_div (norm_vec vxc) (nbf s1 ^ 2)) v_tol \<longrightarrow>
        (\<exists>lv' s'. mRKS_loop (iteration E R v_tol D_tol eig_tol frac_old) (1 # ks) loop_start s
                     = (Inr lv', s')
           \<and> l_vxc lv' = Some vxc
           \<and> requests s' = requests s @ [VxcStops]))"
proof -
  have t: "\<exists>lv' s'. mRKS_loop (iteration E R v_tol D_tol eig_tol frac_old) (1 # ks) loop_start s
                     = (Inr lv', s')
           \<and> l_vxc lv' = Some vxc
           \<and> requests s' = requests s @ [VxcStops]"
    if c: "candidate E R s = (Inr (vxc, ebarKS, taup_rho_KS), s1)"
      and f: "fl_less (np_div (norm_vec vxc) (nbf s1 ^ 2)) v_tol"
    using c f first_errors(1) [of s1 vxc] candidate_requests [OF c]
    by (simp add: iteration_def Let_def loop_start_def)
  show ?thesis
    using t by (simp add: loop_start_def first_errors)
qed

theorem first_iteration_baselines_witness:
  "candidate unit_engine unit_reference unit_solver = (Inr ([0], [0], [0]), unit_solver)
   \<and> fl_less (np_div (norm_vec [0]) (nbf unit_solver ^ 2)) (1 / 10 ^ 4)
   \<and> (\<exists>lv' s'. mRKS_loop (iteration unit_engine unit_reference (1 / 10 ^ 4) (1 / 10 ^ 7)
                                 (1 / 10 ^ 4) 0) [1, 2, 3] loop_start unit_solver
                     = (Inr lv', s')
           \<and> l_vxc lv' = Some [0]
           \<and> requests s' = requests unit_solver @ [VxcStops])
   \<and> mRKS unit_engine unit_solver 3 None (1 / 10 ^ 4) (1 / 10 ^ 7) (1 / 10 ^ 4) 0
        (Method ''continue'')
       = (Inr ([0], [0], [0], [0], [0], [0]),
          unit_solver\<lparr>vxc_hole_WF := Some [0], requests := [BuildGrid, VxcStops]\<rparr>)
   \<and> diagonalizations [BuildGrid, VxcStops] = 0"
proof -
  have c: "candidate unit_engine unit_reference unit_solver = (Inr ([0], [0], [0]), unit_solver)"
    by (simp add: loop_defs quadrature_defs instance_defs)
  have f: "fl_less (np_div (norm_vec [0]) (nbf unit_solver ^ 2)) (1 / 10 ^ 4)"
    by (simp add: np_div_def norm_vec_def unit_solver_def)
  have r: "mRKS unit_engine unit_solver 3 None (1 / 10 ^ 4) (1 / 10 ^ 7) (1 / 10 ^ 4) 0
             (Method ''continue'')
           = (Inr ([0], [0], [0], [0], [0], [0]),
              unit_solver\<lparr>vxc_hole_WF := Some [0], requests := [BuildGrid, VxcStops]\<rparr>)"
    by (simp add: run_defs hole_defs loop_defs quadrature_defs instance_defs)
  from first_iteration_baselines [where E = unit_engine and R = unit_reference and s = unit_solver and vxc = "[0]"
      and ebarKS = "[0]" and taup_rho_KS = "[0]" and ?s1.0 = unit_solver
      and v_tol = "1 / 10 ^ 4" and D_tol = "1 / 10 ^ 7" and eig_tol = "1 / 10 ^ 4"
      and frac_old = 0 and ks = "[2, 3]"]
  have "\<exists>lv' s'. mRKS_loop (iteration unit_engine unit_reference (1 / 10 ^ 4) (1 / 10 ^ 7)
                               (1 / 10 ^ 4) 0) [1, 2, 3] loop_start unit_solver
                     = (Inr lv', s')
           \<and> l_vxc lv' = Some [0]
           \<and> requests s' = requests unit_solver @ [VxcStops]"
    using c f by blast
  then show ?thesis
    using c f r by simp
qed

end
